theory Spec2Isabelle
  imports Complex_Main "HOL-Library.Multiset"
begin

section \<open>The ledger store (postgresql-product-schema.sql)\<close>

text \<open>
  Every relation is a list of rows in insertion order; a row is a record whose fields carry
  the alias the SQL of the repository gives the table (\<open>pb\<close>, \<open>ri\<close>, \<open>pm\<close>, \<open>p\<close>,
  \<open>m\<close>, \<open>r\<close>, \<open>cp\<close>).  Only the columns that the four ledger operations read or write are
  kept.  \<open>INTEGER\<close> columns are \<open>int\<close> with the range of a 32-bit integer checked where a
  row is written, \<open>DECIMAL\<close> columns are exact rationals (the rounding to two decimals is
  not modelled), \<open>DATE\<close> is a day number, a timestamp is a number of microseconds, and a
  nullable column is an \<open>option\<close>.
\<close>

type_synonym date = int
type_synonym timestamp = int
type_synonym uuid = string

datatype entity_type = Manufacturer | Retailer | Consumer

datatype movement_type =
  Manufacture | Ship_to_retailer | Sale_to_consumer | Return | Disposal | Recall | Transfer

record manufacturers_row =
  m_id :: int
  m_wp_user_id :: int
  m_company_name :: string

record retailers_row =
  r_id :: int
  r_wp_user_id :: int
  r_store_name :: string

record products_row =
  p_id :: int
  p_manufacturer_id :: int

record product_batches_row =
  pb_id :: int
  pb_uuid :: uuid
  pb_product_id :: int
  pb_batch_number :: string
  pb_manufacture_date :: date
  pb_expiry_date :: date
  pb_quantity_produced :: int
  pb_quantity_available :: int
  pb_lab_test_results :: string
  pb_created_at :: timestamp

record retailer_inventory_row =
  ri_id :: int
  ri_retailer_id :: int
  ri_product_id :: int
  ri_batch_id :: int
  ri_quantity_in_stock :: int
  ri_quantity_reserved :: int
  ri_price :: rat
  ri_last_sold :: "timestamp option"
  ri_updated_at :: timestamp

record product_movements_row =
  pm_id :: int
  pm_movement_type :: movement_type
  pm_product_id :: int
  pm_batch_id :: int
  pm_from_entity_type :: entity_type
  pm_from_entity_id :: int
  pm_to_entity_type :: entity_type
  pm_to_entity_id :: int
  pm_quantity :: int
  pm_unit_price :: "rat option"
  pm_notes :: "string option"
  pm_created_at :: timestamp

record consumer_purchases_row =
  cp_id :: int
  cp_wp_user_id :: "int option"
  cp_retailer_id :: int
  cp_purchase_date :: timestamp
  cp_pos_transaction_id :: "string option"
  cp_payment_method :: "string option"
  cp_total_amount :: rat

record purchase_items_row =
  pi_id :: int
  pi_purchase_id :: int
  pi_product_id :: int
  pi_batch_id :: int
  pi_quantity :: int
  pi_unit_price :: rat
  pi_total_price :: rat

text \<open>
  The five \<open>SERIAL\<close> columns draw their values from sequences.  A sequence is not
  transactional: a value drawn inside a transaction that is rolled back stays drawn.  The
  sequences are therefore kept apart from the tables.
\<close>

record db =
  manufacturers :: "manufacturers_row list"
  retailers :: "retailers_row list"
  products :: "products_row list"
  product_batches :: "product_batches_row list"
  retailer_inventory :: "retailer_inventory_row list"
  product_movements :: "product_movements_row list"
  consumer_purchases :: "consumer_purchases_row list"
  purchase_items :: "purchase_items_row list"
  product_batches_id_seq :: int
  retailer_inventory_id_seq :: int
  product_movements_id_seq :: int
  consumer_purchases_id_seq :: int
  purchase_items_id_seq :: int

subsection \<open>Errors, transactions\<close>

datatype error =
  Error string
  | TypeError
  | NotNullViolation string
  | CheckViolation string
  | UniqueViolation string
  | ForeignKeyViolation string

text \<open>\<open>error.message\<close>: the text of a JavaScript error, the constraint for a database error.\<close>

fun message :: "error \<Rightarrow> string" where
  "message (Error s) = s"
| "message TypeError = ''Cannot read properties of undefined''"
| "message (NotNullViolation c) = ''null value violates not-null constraint: '' @ c"
| "message (CheckViolation c) = ''new row violates check constraint: '' @ c"
| "message (UniqueViolation c) = ''duplicate key value violates unique constraint: '' @ c"
| "message (ForeignKeyViolation c) = ''violates foreign key constraint: '' @ c"

text \<open>
  A statement run on a client inside \<open>BEGIN\<close> \dots \<open>COMMIT\<close> either yields a value and the
  next state, or throws; the state at the throw still holds the sequences as they are then.
\<close>

datatype 'a tx = Done 'a db | Thrown error db

definition await :: "(db \<Rightarrow> 'a tx) \<Rightarrow> ('a \<Rightarrow> db \<Rightarrow> 'b tx) \<Rightarrow> db \<Rightarrow> 'b tx" where
  "await stmt cont d = (case stmt d of Thrown e d' \<Rightarrow> Thrown e d' | Done x d' \<Rightarrow> cont x d')"

text \<open>A \<open>SELECT\<close> reads the current state and writes nothing.\<close>

definition select :: "(db \<Rightarrow> 'a) \<Rightarrow> db \<Rightarrow> 'a tx" where
  "select rows d = Done (rows d) d"

text \<open>\<open>ROLLBACK\<close>: the tables of the snapshot taken at \<open>BEGIN\<close>, the sequences as they are now.\<close>

definition ROLLBACK :: "db \<Rightarrow> db \<Rightarrow> db" where
  "ROLLBACK snapshot cur =
     snapshot\<lparr>product_batches_id_seq := product_batches_id_seq cur,
              retailer_inventory_id_seq := retailer_inventory_id_seq cur,
              product_movements_id_seq := product_movements_id_seq cur,
              consumer_purchases_id_seq := consumer_purchases_id_seq cur,
              purchase_items_id_seq := purchase_items_id_seq cur\<rparr>"

subsection \<open>Column and table constraints\<close>

definition int4 :: "int \<Rightarrow> bool" where
  "int4 x \<longleftrightarrow> - 2147483648 \<le> x \<and> x \<le> 2147483647"

text \<open>\<open>product_batches\<close>: the three \<open>CHECK\<close>s, \<open>VARCHAR(100)\<close>, the integer columns.\<close>

definition pb_check :: "product_batches_row \<Rightarrow> bool" where
  "pb_check b \<longleftrightarrow>
     pb_quantity_produced b > 0 \<and> pb_quantity_available b \<ge> 0 \<and>
     pb_expiry_date b > pb_manufacture_date b \<and>
     length (pb_batch_number b) \<le> 100 \<and>
     int4 (pb_quantity_produced b) \<and> int4 (pb_quantity_available b)"

text \<open>\<open>retailer_inventory\<close>: the column \<open>CHECK\<close>s and \<open>valid_reserved\<close>.\<close>

definition ri_check :: "retailer_inventory_row \<Rightarrow> bool" where
  "ri_check r \<longleftrightarrow>
     ri_quantity_in_stock r \<ge> 0 \<and> ri_quantity_reserved r \<ge> 0 \<and> ri_price r > 0 \<and>
     ri_quantity_reserved r \<le> ri_quantity_in_stock r \<and>
     int4 (ri_quantity_in_stock r) \<and> int4 (ri_quantity_reserved r)"

definition pm_check :: "product_movements_row \<Rightarrow> bool" where
  "pm_check m \<longleftrightarrow> pm_quantity m > 0 \<and> int4 (pm_quantity m)"

definition pi_check :: "purchase_items_row \<Rightarrow> bool" where
  "pi_check i \<longleftrightarrow> pi_quantity i > 0 \<and> int4 (pi_quantity i)"

subsection \<open>The statements the handlers of server.js issue\<close>

text \<open>
  \<open>INSERT INTO product_batches\<close> \dots \<open>RETURNING id, uuid\<close>.  The id is the next value of the
  sequence; the uuid is \<open>uuid_generate_v4()\<close>, a random value that the caller of the model
  supplies.
\<close>

definition insert_product_batches ::
  "uuid \<Rightarrow> int \<Rightarrow> string \<Rightarrow> date \<Rightarrow> date \<Rightarrow> int \<Rightarrow> int \<Rightarrow> string \<Rightarrow> timestamp \<Rightarrow> db \<Rightarrow> (int \<times> uuid) tx"
  where
  "insert_product_batches fresh_uuid product_id batch_number manufacture_date expiry_date
       quantity_produced quantity_available lab_test_results now d =
     (let d1 = d\<lparr>product_batches_id_seq := product_batches_id_seq d + 1\<rparr>;
          row = \<lparr>pb_id = product_batches_id_seq d1, pb_uuid = fresh_uuid,
                 pb_product_id = product_id, pb_batch_number = batch_number,
                 pb_manufacture_date = manufacture_date, pb_expiry_date = expiry_date,
                 pb_quantity_produced = quantity_produced,
                 pb_quantity_available = quantity_available,
                 pb_lab_test_results = lab_test_results, pb_created_at = now\<rparr>
      in if \<not> pb_check row then Thrown (CheckViolation ''product_batches'') d1
         else if pb_id row \<in> pb_id ` set (product_batches d1)
           then Thrown (UniqueViolation ''product_batches_pkey'') d1
         else if fresh_uuid \<in> pb_uuid ` set (product_batches d1)
           then Thrown (UniqueViolation ''product_batches_uuid_key'') d1
         else if (product_id, batch_number)
                   \<in> (\<lambda>b. (pb_product_id b, pb_batch_number b)) ` set (product_batches d1)
           then Thrown (UniqueViolation ''unique_batch_per_product'') d1
         else if product_id \<notin> p_id ` set (products d1)
           then Thrown (ForeignKeyViolation ''product_batches_product_id_fkey'') d1
         else Done (pb_id row, fresh_uuid)
                (d1\<lparr>product_batches := product_batches d1 @ [row]\<rparr>))"

text \<open>\<open>INSERT INTO product_movements\<close>; \<open>notes\<close> is never given, \<open>created_at\<close> defaults to now.\<close>

definition insert_product_movements ::
  "movement_type \<Rightarrow> int \<Rightarrow> int \<Rightarrow> entity_type \<Rightarrow> int \<Rightarrow> entity_type \<Rightarrow> int \<Rightarrow> int \<Rightarrow>
     rat option \<Rightarrow> timestamp \<Rightarrow> db \<Rightarrow> unit tx"
  where
  "insert_product_movements movement_type product_id batch_id from_entity_type from_entity_id
       to_entity_type to_entity_id quantity unit_price now d =
     (let d1 = d\<lparr>product_movements_id_seq := product_movements_id_seq d + 1\<rparr>;
          row = \<lparr>pm_id = product_movements_id_seq d1, pm_movement_type = movement_type,
                 pm_product_id = product_id, pm_batch_id = batch_id,
                 pm_from_entity_type = from_entity_type, pm_from_entity_id = from_entity_id,
                 pm_to_entity_type = to_entity_type, pm_to_entity_id = to_entity_id,
                 pm_quantity = quantity, pm_unit_price = unit_price, pm_notes = None,
                 pm_created_at = now\<rparr>
      in if \<not> pm_check row then Thrown (CheckViolation ''product_movements_quantity_check'') d1
         else if pm_id row \<in> pm_id ` set (product_movements d1)
           then Thrown (UniqueViolation ''product_movements_pkey'') d1
         else if product_id \<notin> p_id ` set (products d1)
           then Thrown (ForeignKeyViolation ''product_movements_product_id_fkey'') d1
         else if batch_id \<notin> pb_id ` set (product_batches d1)
           then Thrown (ForeignKeyViolation ''product_movements_batch_id_fkey'') d1
         else Done () (d1\<lparr>product_movements := product_movements d1 @ [row]\<rparr>))"

text \<open>
  \<open>INSERT INTO retailer_inventory\<close> \dots \<open>ON CONFLICT (retailer_id, product_id, batch_id) DO
  UPDATE SET quantity_in_stock = retailer_inventory.quantity_in_stock + $4, price = $5,
  updated_at = CURRENT_TIMESTAMP\<close>.  The proposed row is checked first; on a conflict the
  existing row is updated and checked, otherwise the proposed row is inserted.
\<close>

definition ri_key :: "retailer_inventory_row \<Rightarrow> int \<times> int \<times> int" where
  "ri_key r = (ri_retailer_id r, ri_product_id r, ri_batch_id r)"

definition upsert_retailer_inventory ::
  "int \<Rightarrow> int \<Rightarrow> int \<Rightarrow> int \<Rightarrow> rat option \<Rightarrow> timestamp \<Rightarrow> db \<Rightarrow> unit tx"
  where
  "upsert_retailer_inventory retailer_id product_id batch_id quantity price now d =
     (let d1 = d\<lparr>retailer_inventory_id_seq := retailer_inventory_id_seq d + 1\<rparr>
      in case price of
           None \<Rightarrow> Thrown (NotNullViolation ''price'') d1
         | Some pr \<Rightarrow>
            (let row = \<lparr>ri_id = retailer_inventory_id_seq d1, ri_retailer_id = retailer_id,
                        ri_product_id = product_id, ri_batch_id = batch_id,
                        ri_quantity_in_stock = quantity, ri_quantity_reserved = 0,
                        ri_price = pr, ri_last_sold = None, ri_updated_at = now\<rparr>;
                 conflict = (\<lambda>r. ri_key r = (retailer_id, product_id, batch_id));
                 upd = (\<lambda>r. r\<lparr>ri_quantity_in_stock := ri_quantity_in_stock r + quantity,
                              ri_price := pr, ri_updated_at := now\<rparr>)
             in if \<not> ri_check row then Thrown (CheckViolation ''retailer_inventory'') d1
                else if filter conflict (retailer_inventory d1) \<noteq> []
                  then (if \<not> list_all ri_check (map upd (filter conflict (retailer_inventory d1)))
                          then Thrown (CheckViolation ''retailer_inventory'') d1
                        else Done () (d1\<lparr>retailer_inventory :=
                               map (\<lambda>r. if conflict r then upd r else r) (retailer_inventory d1)\<rparr>))
                else if ri_id row \<in> ri_id ` set (retailer_inventory d1)
                  then Thrown (UniqueViolation ''retailer_inventory_pkey'') d1
                else if retailer_id \<notin> r_id ` set (retailers d1)
                  then Thrown (ForeignKeyViolation ''retailer_inventory_retailer_id_fkey'') d1
                else if product_id \<notin> p_id ` set (products d1)
                  then Thrown (ForeignKeyViolation ''retailer_inventory_product_id_fkey'') d1
                else if batch_id \<notin> pb_id ` set (product_batches d1)
                  then Thrown (ForeignKeyViolation ''retailer_inventory_batch_id_fkey'') d1
                else Done () (d1\<lparr>retailer_inventory := retailer_inventory d1 @ [row]\<rparr>)))"

text \<open>\<open>UPDATE product_batches SET quantity_available = quantity_available - $1 WHERE id = $2\<close>.\<close>

definition update_product_batches :: "int \<Rightarrow> int \<Rightarrow> db \<Rightarrow> unit tx" where
  "update_product_batches quantity batch_id d =
     (let upd = (\<lambda>b. b\<lparr>pb_quantity_available := pb_quantity_available b - quantity\<rparr>)
      in if \<not> list_all pb_check (map upd (filter (\<lambda>b. pb_id b = batch_id) (product_batches d)))
           then Thrown (CheckViolation ''product_batches'') d
         else Done () (d\<lparr>product_batches :=
                map (\<lambda>b. if pb_id b = batch_id then upd b else b) (product_batches d)\<rparr>))"

text \<open>
  \<open>UPDATE retailer_inventory SET quantity_in_stock = quantity_in_stock - $1, last_sold =
  CURRENT_TIMESTAMP WHERE retailer_id = $2 AND product_id = $3 AND batch_id = $4\<close>, with the
  trigger \<open>update_inventory_updated_at\<close>.  A statement that matches no row updates nothing and
  is no error.
\<close>

definition update_retailer_inventory :: "int \<Rightarrow> int \<Rightarrow> int \<Rightarrow> int \<Rightarrow> timestamp \<Rightarrow> db \<Rightarrow> unit tx"
  where
  "update_retailer_inventory quantity retailer_id product_id batch_id now d =
     (let hit = (\<lambda>r. ri_key r = (retailer_id, product_id, batch_id));
          upd = (\<lambda>r. r\<lparr>ri_quantity_in_stock := ri_quantity_in_stock r - quantity,
                       ri_last_sold := Some now, ri_updated_at := now\<rparr>)
      in if \<not> list_all ri_check (map upd (filter hit (retailer_inventory d)))
           then Thrown (CheckViolation ''retailer_inventory'') d
         else Done () (d\<lparr>retailer_inventory :=
                map (\<lambda>r. if hit r then upd r else r) (retailer_inventory d)\<rparr>))"

text \<open>\<open>INSERT INTO consumer_purchases\<close> \dots \<open>RETURNING id\<close>.\<close>

definition insert_consumer_purchases ::
  "int option \<Rightarrow> int \<Rightarrow> rat \<Rightarrow> string option \<Rightarrow> string option \<Rightarrow> timestamp \<Rightarrow> db \<Rightarrow> int tx"
  where
  "insert_consumer_purchases wp_user_id retailer_id total_amount payment_method
       pos_transaction_id now d =
     (let d1 = d\<lparr>consumer_purchases_id_seq := consumer_purchases_id_seq d + 1\<rparr>;
          row = \<lparr>cp_id = consumer_purchases_id_seq d1, cp_wp_user_id = wp_user_id,
                 cp_retailer_id = retailer_id, cp_purchase_date = now,
                 cp_pos_transaction_id = pos_transaction_id,
                 cp_payment_method = payment_method, cp_total_amount = total_amount\<rparr>
      in if cp_id row \<in> cp_id ` set (consumer_purchases d1)
           then Thrown (UniqueViolation ''consumer_purchases_pkey'') d1
         else if retailer_id \<notin> r_id ` set (retailers d1)
           then Thrown (ForeignKeyViolation ''consumer_purchases_retailer_id_fkey'') d1
         else Done (cp_id row) (d1\<lparr>consumer_purchases := consumer_purchases d1 @ [row]\<rparr>))"

text \<open>\<open>INSERT INTO purchase_items\<close>.\<close>

definition insert_purchase_items :: "int \<Rightarrow> int \<Rightarrow> int \<Rightarrow> int \<Rightarrow> rat \<Rightarrow> rat \<Rightarrow> db \<Rightarrow> unit tx"
  where
  "insert_purchase_items purchase_id product_id batch_id quantity unit_price total_price d =
     (let d1 = d\<lparr>purchase_items_id_seq := purchase_items_id_seq d + 1\<rparr>;
          row = \<lparr>pi_id = purchase_items_id_seq d1, pi_purchase_id = purchase_id,
                 pi_product_id = product_id, pi_batch_id = batch_id, pi_quantity = quantity,
                 pi_unit_price = unit_price, pi_total_price = total_price\<rparr>
      in if \<not> pi_check row then Thrown (CheckViolation ''purchase_items_quantity_check'') d1
         else if pi_id row \<in> pi_id ` set (purchase_items d1)
           then Thrown (UniqueViolation ''purchase_items_pkey'') d1
         else if purchase_id \<notin> cp_id ` set (consumer_purchases d1)
           then Thrown (ForeignKeyViolation ''purchase_items_purchase_id_fkey'') d1
         else if product_id \<notin> p_id ` set (products d1)
           then Thrown (ForeignKeyViolation ''purchase_items_product_id_fkey'') d1
         else if batch_id \<notin> pb_id ` set (product_batches d1)
           then Thrown (ForeignKeyViolation ''purchase_items_batch_id_fkey'') d1
         else Done () (d1\<lparr>purchase_items := purchase_items d1 @ [row]\<rparr>))"

text \<open>
  \<open>SELECT p.id, p.manufacturer_id FROM products p JOIN manufacturers m ON p.manufacturer_id =
  m.id WHERE p.id = $1 AND m.wp_user_id = $2\<close>
\<close>

definition select_owned_product :: "int \<Rightarrow> int \<Rightarrow> db \<Rightarrow> products_row list" where
  "select_owned_product productId wp_user_id d =
     [p. p \<leftarrow> products d, m \<leftarrow> manufacturers d,
         p_manufacturer_id p = m_id m, p_id p = productId \<and> m_wp_user_id m = wp_user_id]"

text \<open>\<open>SELECT id FROM retailers WHERE wp_user_id = $1\<close>\<close>

definition select_retailer :: "int \<Rightarrow> db \<Rightarrow> int list" where
  "select_retailer wp_user_id d = [r_id r. r \<leftarrow> retailers d, r_wp_user_id r = wp_user_id]"

text \<open>\<open>SELECT quantity_available FROM product_batches WHERE id = $1 AND product_id = $2\<close>\<close>

definition select_quantity_available :: "int \<Rightarrow> int \<Rightarrow> db \<Rightarrow> int list" where
  "select_quantity_available batch_id product_id d =
     [pb_quantity_available b. b \<leftarrow> product_batches d,
        pb_id b = batch_id \<and> pb_product_id b = product_id]"

text \<open>\<open>SELECT manufacturer_id FROM products WHERE id = $1\<close>\<close>

definition select_manufacturer_id :: "int \<Rightarrow> db \<Rightarrow> int list" where
  "select_manufacturer_id product_id d =
     [p_manufacturer_id p. p \<leftarrow> products d, p_id p = product_id]"

section \<open>The movement engine (server.js)\<close>

text \<open>\<open>req.user\<close>, as the authentication middleware resolves it.\<close>

record user =
  user_id :: int
  user_type :: string

text \<open>A row of the table that the SQL function \<open>get_batch_history\<close> returns.\<close>

record history_row =
  h_movement_date :: timestamp
  h_movement_type :: movement_type
  h_from_entity :: "string option"
  h_to_entity :: "string option"
  h_quantity :: int
  h_notes :: "string option"

datatype response =
  BatchCreated int uuid
  | InventoryAdded
  | PurchaseCompleted int
  | Traced product_batches_row "history_row list"
  | ErrorStatus nat string

subsection \<open>record\_manufacture: \<open>POST /api/products/:productId/batches\<close>\<close>

record batch_body =
  batch_number :: string
  manufacture_date :: date
  expiry_date :: date
  quantity_produced :: int
  lab_test_results :: string

definition create_batch_tx ::
  "timestamp \<Rightarrow> uuid \<Rightarrow> int \<Rightarrow> int \<Rightarrow> batch_body \<Rightarrow> db \<Rightarrow> (int \<times> uuid) tx" where
  "create_batch_tx now fresh_uuid productId manufacturer_id body =
     await (insert_product_batches fresh_uuid productId (batch_number body)
              (manufacture_date body) (expiry_date body) (quantity_produced body)
              (quantity_produced body) (lab_test_results body) now)
       (\<lambda>batchResult.
     await (insert_product_movements Manufacture productId (fst batchResult)
              Manufacturer manufacturer_id Manufacturer manufacturer_id
              (quantity_produced body) None now)
       (\<lambda>_. Done batchResult))"

text \<open>The \<open>403\<close> answer leaves the handler before any statement has written.\<close>

definition create_batch ::
  "timestamp \<Rightarrow> uuid \<Rightarrow> db \<Rightarrow> user \<Rightarrow> int \<Rightarrow> batch_body \<Rightarrow> response \<times> db" where
  "create_batch now fresh_uuid d u productId body =
     (case select_owned_product productId (user_id u) d of
        [] \<Rightarrow> (ErrorStatus 403 ''Unauthorized'', d)
      | productResult # _ \<Rightarrow>
         (case create_batch_tx now fresh_uuid productId (p_manufacturer_id productResult) body d of
            Done batchResult d' \<Rightarrow> (BatchCreated (fst batchResult) (snd batchResult), d')
          | Thrown e d' \<Rightarrow> (ErrorStatus 500 ''Failed to create batch'', ROLLBACK d d')))"

subsection \<open>ship\_to\_retailer: \<open>POST /api/inventory/add\<close>\<close>

record add_body =
  product_id :: int
  batch_id :: int
  quantity :: int
  price :: "rat option"

definition inventory_add_tx :: "timestamp \<Rightarrow> user \<Rightarrow> add_body \<Rightarrow> db \<Rightarrow> unit tx" where
  "inventory_add_tx now u body =
     await (select (select_retailer (user_id u)))
       (\<lambda>retailerResult. case retailerResult of
          [] \<Rightarrow> Thrown (Error ''Retailer not found'')
        | retailerId # _ \<Rightarrow>
     await (select (select_quantity_available (batch_id body) (product_id body)))
       (\<lambda>batchResult. case batchResult of
          [] \<Rightarrow> Thrown (Error ''Insufficient batch quantity available'')
        | quantity_available # _ \<Rightarrow>
            if quantity_available < quantity body
            then Thrown (Error ''Insufficient batch quantity available'')
            else
     await (upsert_retailer_inventory retailerId (product_id body) (batch_id body)
              (quantity body) (price body) now)
       (\<lambda>_.
     await (update_product_batches (quantity body) (batch_id body))
       (\<lambda>_.
     await (select (select_manufacturer_id (product_id body)))
       (\<lambda>manufacturerResult. case manufacturerResult of
          [] \<Rightarrow> Thrown TypeError
        | manufacturer_id # _ \<Rightarrow>
            insert_product_movements Ship_to_retailer (product_id body) (batch_id body)
              Manufacturer manufacturer_id Retailer retailerId (quantity body) (price body)
              now)))))"

definition inventory_add :: "timestamp \<Rightarrow> db \<Rightarrow> user \<Rightarrow> add_body \<Rightarrow> response \<times> db" where
  "inventory_add now d u body =
     (if user_type u \<noteq> ''retailer''
      then (ErrorStatus 403 ''Only retailers can manage inventory'', d)
      else case inventory_add_tx now u body d of
             Done _ d' \<Rightarrow> (InventoryAdded, d')
           | Thrown e d' \<Rightarrow> (ErrorStatus 500 (message e), ROLLBACK d d'))"

subsection \<open>sell\_to\_consumer: \<open>POST /api/purchase\<close>\<close>

record line_item =
  item_product_id :: int
  item_batch_id :: int
  item_quantity :: int
  item_unit_price :: rat

record purchase_body =
  retailer_id :: int
  items :: "line_item list"
  wp_user_id :: "int option"
  payment_method :: "string option"
  pos_transaction_id :: "string option"

text \<open>\<open>items.reduce((sum, item) => sum + (item.quantity * item.unit_price), 0)\<close>\<close>

definition total_amount :: "line_item list \<Rightarrow> rat" where
  "total_amount its =
     foldl (\<lambda>sum item. sum + of_int (item_quantity item) * item_unit_price item) 0 its"

text \<open>
  The loop over the items.  No statement of the handler reads \<open>retailer_inventory\<close> before
  the \<open>UPDATE\<close>, and the result of the \<open>UPDATE\<close> (the number of rows it changed) is not
  looked at.  The consumer of the movement is \<open>wp_user_id || 0\<close>.
\<close>

fun process_items :: "timestamp \<Rightarrow> purchase_body \<Rightarrow> int \<Rightarrow> line_item list \<Rightarrow> db \<Rightarrow> unit tx"
  where
  "process_items now body purchaseId [] d = Done () d"
| "process_items now body purchaseId (item # rest) d =
     await (insert_purchase_items purchaseId (item_product_id item) (item_batch_id item)
              (item_quantity item) (item_unit_price item)
              (of_int (item_quantity item) * item_unit_price item))
       (\<lambda>_.
     await (update_retailer_inventory (item_quantity item) (retailer_id body)
              (item_product_id item) (item_batch_id item) now)
       (\<lambda>_.
     await (insert_product_movements Sale_to_consumer (item_product_id item)
              (item_batch_id item) Retailer (retailer_id body) Consumer
              (case wp_user_id body of None \<Rightarrow> 0 | Some w \<Rightarrow> w)
              (item_quantity item) (Some (item_unit_price item)) now)
       (\<lambda>_. process_items now body purchaseId rest))) d"

definition purchase_tx :: "timestamp \<Rightarrow> purchase_body \<Rightarrow> db \<Rightarrow> int tx" where
  "purchase_tx now body =
     await (insert_consumer_purchases (wp_user_id body) (retailer_id body)
              (total_amount (items body)) (payment_method body) (pos_transaction_id body) now)
       (\<lambda>purchaseId.
     await (process_items now body purchaseId (items body))
       (\<lambda>_. Done purchaseId))"

definition purchase :: "timestamp \<Rightarrow> db \<Rightarrow> purchase_body \<Rightarrow> response \<times> db" where
  "purchase now d body =
     (case purchase_tx now body d of
        Done purchaseId d' \<Rightarrow> (PurchaseCompleted purchaseId, d')
      | Thrown e d' \<Rightarrow> (ErrorStatus 500 ''Failed to process purchase'', ROLLBACK d d'))"

subsection \<open>trace: \<open>GET /api/trace/batch/:batchNumber\<close> and \<open>get_batch_history\<close>\<close>

text \<open>The text of an integer, as \<open>'Consumer #' || pm.from_entity_id\<close> concatenates it.\<close>

function show_nat :: "nat \<Rightarrow> string" where
  "show_nat n =
     (if n < 10 then [''0123456789'' ! n]
      else show_nat (n div 10) @ [''0123456789'' ! (n mod 10)])"
  by pat_completeness auto
termination
  by (relation "measure id") auto

declare show_nat.simps [simp del]

definition show_int :: "int \<Rightarrow> string" where
  "show_int i = (if i < 0 then CHR ''-'' # show_nat (nat (- i)) else show_nat (nat i))"

text \<open>\<open>a LEFT JOIN b ON c\<close>: every matching row of \<open>b\<close>, or one row of nulls when none matches.\<close>

definition left_join :: "'a list \<Rightarrow> ('a \<Rightarrow> bool) \<Rightarrow> 'a option list" where
  "left_join rows on = (case filter on rows of [] \<Rightarrow> [None] | hits \<Rightarrow> map Some hits)"

text \<open>
  \<open>CASE WHEN pm.from_entity_type = 'manufacturer' THEN m1.company_name WHEN
  pm.from_entity_type = 'retailer' THEN r1.store_name ELSE 'Consumer #' || pm.from_entity_id
  END\<close>; a column of a row of nulls is null.
\<close>

definition entity_label ::
  "entity_type \<Rightarrow> int \<Rightarrow> manufacturers_row option \<Rightarrow> retailers_row option \<Rightarrow> string option"
  where
  "entity_label entity_type entity_id m r =
     (case entity_type of
        Manufacturer \<Rightarrow> map_option m_company_name m
      | Retailer \<Rightarrow> map_option r_store_name r
      | Consumer \<Rightarrow> Some (''Consumer #'' @ show_int entity_id))"

text \<open>The rows that the query of \<open>get_batch_history\<close> selects, before \<open>ORDER BY\<close>.\<close>

definition get_batch_history_rows :: "uuid \<Rightarrow> db \<Rightarrow> history_row list" where
  "get_batch_history_rows batch_uuid d =
     [\<lparr>h_movement_date = pm_created_at pm, h_movement_type = pm_movement_type pm,
       h_from_entity = entity_label (pm_from_entity_type pm) (pm_from_entity_id pm) m1 r1,
       h_to_entity = entity_label (pm_to_entity_type pm) (pm_to_entity_id pm) m2 r2,
       h_quantity = pm_quantity pm, h_notes = pm_notes pm\<rparr>.
        pm \<leftarrow> product_movements d,
        pb \<leftarrow> product_batches d, pm_batch_id pm = pb_id pb,
        m1 \<leftarrow> left_join (manufacturers d)
               (\<lambda>m. pm_from_entity_type pm = Manufacturer \<and> pm_from_entity_id pm = m_id m),
        r1 \<leftarrow> left_join (retailers d)
               (\<lambda>r. pm_from_entity_type pm = Retailer \<and> pm_from_entity_id pm = r_id r),
        m2 \<leftarrow> left_join (manufacturers d)
               (\<lambda>m. pm_to_entity_type pm = Manufacturer \<and> pm_to_entity_id pm = m_id m),
        r2 \<leftarrow> left_join (retailers d)
               (\<lambda>r. pm_to_entity_type pm = Retailer \<and> pm_to_entity_id pm = r_id r),
        pb_uuid pb = batch_uuid]"

text \<open>
  The types of the columns.  The function declares \<open>RETURNS TABLE (movement_date TIMESTAMP
  WITH TIME ZONE, movement_type VARCHAR, from_entity VARCHAR, to_entity VARCHAR, quantity
  INTEGER, notes TEXT)\<close>.
\<close>

datatype sql_type = Timestamptz | Varchar | Text | Integer

definition returns_table :: "sql_type list" where
  "returns_table = [Timestamptz, Varchar, Varchar, Varchar, Integer, Text]"

text \<open>
  \<open>'Consumer #' || pm.from_entity_id\<close> joins a string literal and an \<open>INTEGER\<close>: the
  operator is the one on \<open>text\<close>, and so is its result.
\<close>

definition concat_type :: sql_type where
  "concat_type = Text"

text \<open>
  The type of a \<open>CASE\<close> over character strings is the common type of its results.
  PostgreSQL starts from the \<open>ELSE\<close> result and goes on through the \<open>THEN\<close> results, and
  a later type displaces the one chosen only if the conversion is implicit in one direction
  alone; \<open>text\<close> and \<open>varchar\<close> convert into each other implicitly, so the type of the
  \<open>ELSE\<close> result stays.
\<close>

definition case_type :: "sql_type list \<Rightarrow> sql_type \<Rightarrow> sql_type" where
  "case_type thens else_result = else_result"

text \<open>
  The select list of the query: \<open>pm.created_at\<close> (\<open>TIMESTAMP WITH TIME ZONE\<close>),
  \<open>pm.movement_type\<close> (\<open>VARCHAR(30)\<close>), the two \<open>CASE\<close> expressions over
  \<open>company_name\<close> and \<open>store_name\<close> (both \<open>VARCHAR(255)\<close>) and the concatenation,
  \<open>pm.quantity\<close> (\<open>INTEGER\<close>) and \<open>pm.notes\<close> (\<open>TEXT\<close>).
\<close>

definition select_list :: "sql_type list" where
  "select_list =
     [Timestamptz, Varchar, case_type [Varchar, Varchar] concat_type,
      case_type [Varchar, Varchar] concat_type, Integer, Text]"

text \<open>
  \<open>RETURN QUERY\<close> hands the rows of the query over only when the type of every column is
  the type declared for it (a declared type without a length accepts any length); otherwise
  it raises \<open>structure of query does not match function result type\<close>, whatever the rows
  are and also when there are none.

  \<open>ORDER BY pm.created_at\<close> names one sort key and nothing else.  SQL leaves the order of
  rows with equal keys to the engine, so the function is a relation between the state and
  its outcomes: \<open>None\<close> when it raises, and any arrangement of the selected rows that
  ascends in \<open>movement_date\<close> when it returns.
\<close>

definition get_batch_history :: "uuid \<Rightarrow> db \<Rightarrow> history_row list option \<Rightarrow> bool" where
  "get_batch_history batch_uuid d outcome \<longleftrightarrow>
     (if select_list \<noteq> returns_table then outcome = None
      else case outcome of
             None \<Rightarrow> False
           | Some history \<Rightarrow>
               mset history = mset (get_batch_history_rows batch_uuid d) \<and>
               sorted (map h_movement_date history))"

text \<open>
  \<open>SELECT pb.*, \<dots> FROM product_batches pb JOIN products p ON pb.product_id = p.id JOIN
  manufacturers m ON p.manufacturer_id = m.id WHERE pb.batch_number = $1\<close> (the names of the
  product and of the manufacturer that the query also selects are left out).
\<close>

definition select_batch_by_number :: "string \<Rightarrow> db \<Rightarrow> product_batches_row list" where
  "select_batch_by_number batchNumber d =
     [pb. pb \<leftarrow> product_batches d,
          p \<leftarrow> products d, pb_product_id pb = p_id p,
          m \<leftarrow> manufacturers d, p_manufacturer_id p = m_id m,
          pb_batch_number pb = batchNumber]"

text \<open>
  The handler answers from two queries on the pool and writes nothing, so it has no next
  state.  \<open>batchResult.rows[0]\<close> is the first row of a query without \<open>ORDER BY\<close>: one of the
  rows selected.  When \<open>get_batch_history\<close> raises, the \<open>catch\<close> block answers \<open>500\<close>.
\<close>

definition trace_batch :: "db \<Rightarrow> string \<Rightarrow> response \<Rightarrow> bool" where
  "trace_batch d batchNumber res \<longleftrightarrow>
     (if select_batch_by_number batchNumber d = []
      then res = ErrorStatus 404 ''Batch not found''
      else list_ex
             (\<lambda>batch.
                (case res of
                   Traced b history \<Rightarrow>
                     b = batch \<and> get_batch_history (pb_uuid batch) d (Some history)
                 | ErrorStatus code error \<Rightarrow>
                     code = 500 \<and> error = ''Failed to trace batch'' \<and>
                     get_batch_history (pb_uuid batch) d None
                 | _ \<Rightarrow> False))
             (select_batch_by_number batchNumber d))"

subsection \<open>The listing a retailer chooses a batch from: \<open>GET /api/products/available\<close>\<close>

definition CURRENT_DATE :: "timestamp \<Rightarrow> date" where
  "CURRENT_DATE now = now div 86400000000"

text \<open>
  The join condition of the listing: \<open>pb.quantity_available > 0 AND pb.expiry_date >
  CURRENT_DATE\<close>.
\<close>

definition counted_as_available :: "timestamp \<Rightarrow> product_batches_row \<Rightarrow> bool" where
  "counted_as_available now pb \<longleftrightarrow>
     pb_quantity_available pb > 0 \<and> pb_expiry_date pb > CURRENT_DATE now"

section \<open>Sequences of operations and the replay of the movement log\<close>

datatype operation =
  Op_record_manufacture timestamp uuid user int batch_body
  | Op_ship_to_retailer timestamp user add_body
  | Op_sell_to_consumer timestamp purchase_body

fun execute :: "db \<Rightarrow> operation \<Rightarrow> db" where
  "execute d (Op_record_manufacture now fresh_uuid u productId body) =
     snd (create_batch now fresh_uuid d u productId body)"
| "execute d (Op_ship_to_retailer now u body) = snd (inventory_add now d u body)"
| "execute d (Op_sell_to_consumer now body) = snd (purchase now d body)"

definition run :: "db \<Rightarrow> operation list \<Rightarrow> db" where
  "run d ops = foldl execute d ops"

text \<open>
  The reconciliation law in the words of the specification: a \<open>manufacture\<close> record adds its
  quantity, a \<open>ship_to_retailer\<close> record subtracts it, a \<open>sale_to_consumer\<close> record leaves the
  availability of the batch as it is.  No operation of the engine writes a record of the
  four other kinds; they count as nothing.
\<close>

definition signed_quantity :: "product_movements_row \<Rightarrow> int" where
  "signed_quantity pm =
     (case pm_movement_type pm of
        Manufacture \<Rightarrow> pm_quantity pm
      | Ship_to_retailer \<Rightarrow> - pm_quantity pm
      | _ \<Rightarrow> 0)"

definition replay :: "int \<Rightarrow> product_movements_row list \<Rightarrow> int" where
  "replay b_id movements =
     sum_list (map signed_quantity (filter (\<lambda>pm. pm_batch_id pm = b_id) movements))"

section \<open>Concrete states\<close>

text \<open>
  The scenario of the specification: manufacturer 1 owns product 1, retailer 1 is a shop;
  1000 units are made on 2 January 2024, 200 of them are shipped on 1 February 2024, and 50
  of those are sold on 1 March 2024.
\<close>

definition scenario_db :: db where
  "scenario_db =
     \<lparr>manufacturers = [\<lparr>m_id = 1, m_wp_user_id = 1001, m_company_name = ''Test Vape Co''\<rparr>],
      retailers = [\<lparr>r_id = 1, r_wp_user_id = 2001, r_store_name = ''Test Vape Shop''\<rparr>],
      products = [\<lparr>p_id = 1, p_manufacturer_id = 1\<rparr>],
      product_batches = [], retailer_inventory = [], product_movements = [],
      consumer_purchases = [], purchase_items = [],
      product_batches_id_seq = 0, retailer_inventory_id_seq = 0,
      product_movements_id_seq = 0, consumer_purchases_id_seq = 0,
      purchase_items_id_seq = 0\<rparr>"

definition maker :: user where
  "maker = \<lparr>user_id = 1001, user_type = ''manufacturer''\<rparr>"

definition shop :: user where
  "shop = \<lparr>user_id = 2001, user_type = ''retailer''\<rparr>"

definition lot :: batch_body where
  "lot = \<lparr>batch_number = ''BATCH-TEST-001'', manufacture_date = 19723, expiry_date = 20089,
          quantity_produced = 1000, lab_test_results = ''{}''\<rparr>"

definition made :: operation where
  "made = Op_record_manufacture 1704153600000000 ''b1'' maker 1 lot"

definition shipped :: operation where
  "shipped = Op_ship_to_retailer 1706745600000000 shop
               \<lparr>product_id = 1, batch_id = 1, quantity = 200, price = Some 5\<rparr>"

definition sale :: purchase_body where
  "sale = \<lparr>retailer_id = 1,
            items = [\<lparr>item_product_id = 1, item_batch_id = 1, item_quantity = 50,
                      item_unit_price = 7\<rparr>],
            wp_user_id = None, payment_method = None, pos_transaction_id = None\<rparr>"

definition sold :: operation where
  "sold = Op_sell_to_consumer 1709251200000000 sale"


text \<open>
  The state after the shipment, with the row of retailer 1 deleted; its inventory position
  goes with it (\<open>ON DELETE CASCADE\<close>), the movement records stay.
\<close>

definition retailer_deleted :: db where
  "retailer_deleted = (run scenario_db [made, shipped])\<lparr>retailers := [], retailer_inventory := []\<rparr>"

text \<open>A second batch of product 1, none of which is shipped, and a purchase that names it.\<close>

definition lot2 :: batch_body where
  "lot2 = \<lparr>batch_number = ''BATCH-TEST-002'', manufacture_date = 19723, expiry_date = 20089,
           quantity_produced = 500, lab_test_results = ''{}''\<rparr>"

definition made_second :: operation where
  "made_second = Op_record_manufacture 1704240000000000 ''b2'' maker 1 lot2"

definition mixed_sale :: purchase_body where
  "mixed_sale = \<lparr>retailer_id = 1,
            items = [\<lparr>item_product_id = 1, item_batch_id = 1, item_quantity = 50,
                      item_unit_price = 7\<rparr>,
                     \<lparr>item_product_id = 1, item_batch_id = 2, item_quantity = 10,
                      item_unit_price = 7\<rparr>],
            wp_user_id = None, payment_method = None, pos_transaction_id = None\<rparr>"

text \<open>The batch after the shipment, and rows of its history.\<close>

definition the_batch :: product_batches_row where
  "the_batch = \<lparr>pb_id = 1, pb_uuid = ''b1'', pb_product_id = 1,
      pb_batch_number = ''BATCH-TEST-001'', pb_manufacture_date = 19723,
      pb_expiry_date = 20089, pb_quantity_produced = 1000, pb_quantity_available = 800,
      pb_lab_test_results = ''{}'', pb_created_at = 1704153600000000\<rparr>"

definition h_made :: history_row where
  "h_made = \<lparr>h_movement_date = 1704153600000000, h_movement_type = Manufacture,
      h_from_entity = Some ''Test Vape Co'', h_to_entity = Some ''Test Vape Co'',
      h_quantity = 1000, h_notes = None\<rparr>"

definition h_shipped :: history_row where
  "h_shipped = \<lparr>h_movement_date = 1706745600000000, h_movement_type = Ship_to_retailer,
      h_from_entity = Some ''Test Vape Co'', h_to_entity = Some ''Test Vape Shop'',
      h_quantity = 200, h_notes = None\<rparr>"

definition h_sold :: "int \<Rightarrow> history_row" where
  "h_sold q = \<lparr>h_movement_date = 1709251200000000, h_movement_type = Sale_to_consumer,
      h_from_entity = Some ''Test Vape Shop'', h_to_entity = Some ''Consumer #0'',
      h_quantity = q, h_notes = None\<rparr>"

definition h_shipped_to_nobody :: history_row where
  "h_shipped_to_nobody =
     \<lparr>h_movement_date = 1706745600000000, h_movement_type = Ship_to_retailer,
      h_from_entity = Some ''Test Vape Co'', h_to_entity = None,
      h_quantity = 200, h_notes = None\<rparr>"

section \<open>The invariant of the ledger\<close>

text \<open>
  Batch ids are distinct, every movement record refers to a batch of the table, and the
  \<open>quantity_available\<close> of every batch is the replay of its records.
\<close>

definition ledger_ok :: "db \<Rightarrow> bool" where
  "ledger_ok d \<longleftrightarrow>
     distinct (map pb_id (product_batches d)) \<and>
     pm_batch_id ` set (product_movements d) \<subseteq> pb_id ` set (product_batches d) \<and>
     (\<forall>b\<in>set (product_batches d).
        pb_quantity_available b = replay (pb_id b) (product_movements d))"

section \<open>Projections used to state frame and independence properties\<close>

text \<open>A batch row with \<open>quantity_available\<close> blanked: all its other fields.\<close>

definition frozen_fields :: "product_batches_row \<Rightarrow> product_batches_row" where
  "frozen_fields b = b\<lparr>pb_quantity_available := 0\<rparr>"

text \<open>
  A state with every stored inventory price blanked; a transaction result with a function
  applied to its state; and the \<open>CHECK (price > 0)\<close> of every stored position.
\<close>

definition erase_price :: "db \<Rightarrow> db" where
  "erase_price d = d\<lparr>retailer_inventory := map (\<lambda>r. r\<lparr>ri_price := 1\<rparr>) (retailer_inventory d)\<rparr>"

definition on_state :: "(db \<Rightarrow> db) \<Rightarrow> 'a tx \<Rightarrow> 'a tx" where
  "on_state f t = (case t of Done x d \<Rightarrow> Done x (f d) | Thrown e d \<Rightarrow> Thrown e (f d))"


text \<open>The eight tables of a state, without the sequences.\<close>

definition tables ::
  "db \<Rightarrow> manufacturers_row list \<times> retailers_row list \<times> products_row list \<times>
     product_batches_row list \<times> retailer_inventory_row list \<times> product_movements_row list \<times>
     consumer_purchases_row list \<times> purchase_items_row list" where
  "tables d =
     (manufacturers d, retailers d, products d, product_batches d, retailer_inventory d,
      product_movements d, consumer_purchases d, purchase_items d)"

section \<open>Properties\<close>

lemmas engine_defs =
  create_batch_def create_batch_tx_def inventory_add_def inventory_add_tx_def
  purchase_def purchase_tx_def total_amount_def
  select_owned_product_def select_retailer_def select_quantity_available_def
  select_manufacturer_id_def select_def await_def ROLLBACK_def
  insert_product_batches_def insert_product_movements_def upsert_retailer_inventory_def
  update_product_batches_def update_retailer_inventory_def insert_consumer_purchases_def
  insert_purchase_items_def pb_check_def ri_check_def pm_check_def pi_check_def int4_def
  ri_key_def Let_def

lemmas scenario_defs =
  scenario_db_def maker_def shop_def lot_def made_def shipped_def sale_def sold_def run_def

lemmas trace_defs =
  select_batch_by_number_def get_batch_history_rows_def
  left_join_def entity_label_def show_int_def show_nat.simps
  the_batch_def h_made_def h_shipped_def h_sold_def h_shipped_to_nobody_def

lemmas more_scenario_defs =
  retailer_deleted_def lot2_def made_second_def mixed_sale_def

subsection \<open>Queries\<close>





lemma select_owned_product_hd:
  assumes "select_owned_product productId w d = p # ps"
  shows "p \<in> set (products d) \<and> p_id p = productId \<and>
     (\<exists>m\<in>set (manufacturers d). m_id m = p_manufacturer_id p \<and> m_wp_user_id m = w)"
proof -
  from assms have "p \<in> set (select_owned_product productId w d)" by simp
  then show ?thesis by (auto simp: select_owned_product_def split: if_splits)
qed

subsection \<open>What a statement that succeeds has done\<close>


lemma awaitE:
  assumes "await stmt cont d = Done y d'"
  obtains x d1 where "stmt d = Done x d1" and "cont x d1 = Done y d'"
  using assms unfolding await_def by (cases "stmt d") auto

lemma insert_product_batches_Done:
  "insert_product_batches fu pid bn md ed qp qa lab now d = Done r d' \<Longrightarrow>
     \<exists>b. product_batches d' = product_batches d @ [b] \<and> r = (pb_id b, fu) \<and> pb_uuid b = fu \<and>
       pb_product_id b = pid \<and> pb_batch_number b = bn \<and> pb_manufacture_date b = md \<and>
       pb_expiry_date b = ed \<and> pb_quantity_produced b = qp \<and> pb_quantity_available b = qa \<and>
       pb_lab_test_results b = lab \<and> pb_check b \<and>
       pb_id b \<notin> pb_id ` set (product_batches d) \<and>
       product_movements d' = product_movements d \<and>
       retailer_inventory d' = retailer_inventory d \<and>
       consumer_purchases d' = consumer_purchases d \<and> purchase_items d' = purchase_items d \<and>
       manufacturers d' = manufacturers d \<and> retailers d' = retailers d \<and>
       products d' = products d"
  unfolding insert_product_batches_def Let_def
  by (auto split: if_splits)

lemma insert_product_movements_Done:
  "insert_product_movements mt pid bid ft fi tt ti q up now d = Done r d' \<Longrightarrow>
     \<exists>m. product_movements d' = product_movements d @ [m] \<and> pm_movement_type m = mt \<and>
       pm_product_id m = pid \<and> pm_batch_id m = bid \<and> pm_from_entity_type m = ft \<and>
       pm_from_entity_id m = fi \<and> pm_to_entity_type m = tt \<and> pm_to_entity_id m = ti \<and>
       pm_quantity m = q \<and> pm_unit_price m = up \<and> pm_created_at m = now \<and>
       pm_notes m = None \<and> pm_check m \<and>
       bid \<in> pb_id ` set (product_batches d) \<and>
       product_batches d' = product_batches d \<and> retailer_inventory d' = retailer_inventory d \<and>
       consumer_purchases d' = consumer_purchases d \<and> purchase_items d' = purchase_items d \<and>
       manufacturers d' = manufacturers d \<and> retailers d' = retailers d \<and>
       products d' = products d"
  unfolding insert_product_movements_def Let_def
  by (auto split: if_splits)

lemma ROLLBACK_tables [simp]:
  "manufacturers (ROLLBACK d c) = manufacturers d"
  "retailers (ROLLBACK d c) = retailers d"
  "products (ROLLBACK d c) = products d"
  "product_batches (ROLLBACK d c) = product_batches d"
  "retailer_inventory (ROLLBACK d c) = retailer_inventory d"
  "product_movements (ROLLBACK d c) = product_movements d"
  "consumer_purchases (ROLLBACK d c) = consumer_purchases d"
  "purchase_items (ROLLBACK d c) = purchase_items d"
  by (simp_all add: ROLLBACK_def)

lemma upsert_retailer_inventory_Done:
  "upsert_retailer_inventory rid pid bid q pr now d = Done x d' \<Longrightarrow>
     product_batches d' = product_batches d \<and> product_movements d' = product_movements d \<and>
     consumer_purchases d' = consumer_purchases d \<and> purchase_items d' = purchase_items d \<and>
     manufacturers d' = manufacturers d \<and> retailers d' = retailers d \<and>
     products d' = products d"
  unfolding upsert_retailer_inventory_def Let_def
  by (auto split: if_splits option.splits)

lemma update_product_batches_Done:
  "update_product_batches q bid d = Done x d' \<Longrightarrow>
     product_batches d' =
       map (\<lambda>b. if pb_id b = bid
                 then b\<lparr>pb_quantity_available := pb_quantity_available b - q\<rparr> else b)
           (product_batches d) \<and>
     product_movements d' = product_movements d \<and>
     retailer_inventory d' = retailer_inventory d \<and>
     consumer_purchases d' = consumer_purchases d \<and> purchase_items d' = purchase_items d \<and>
     manufacturers d' = manufacturers d \<and> retailers d' = retailers d \<and>
     products d' = products d"
  unfolding update_product_batches_def Let_def
  by (auto split: if_splits)

lemma update_retailer_inventory_Done:
  "update_retailer_inventory q rid pid bid now d = Done x d' \<Longrightarrow>
     product_batches d' = product_batches d \<and> product_movements d' = product_movements d \<and>
     consumer_purchases d' = consumer_purchases d \<and> purchase_items d' = purchase_items d \<and>
     manufacturers d' = manufacturers d \<and> retailers d' = retailers d \<and>
     products d' = products d"
  unfolding update_retailer_inventory_def Let_def
  by (auto split: if_splits)

lemma insert_consumer_purchases_Done:
  "insert_consumer_purchases w rid tot pay pos now d = Done x d' \<Longrightarrow>
     product_batches d' = product_batches d \<and> product_movements d' = product_movements d \<and>
     retailer_inventory d' = retailer_inventory d \<and> purchase_items d' = purchase_items d \<and>
     manufacturers d' = manufacturers d \<and> retailers d' = retailers d \<and>
     products d' = products d"
  unfolding insert_consumer_purchases_def Let_def
  by (auto split: if_splits)

lemma insert_purchase_items_Done:
  "insert_purchase_items cid pid bid q up tp d = Done x d' \<Longrightarrow>
     product_batches d' = product_batches d \<and> product_movements d' = product_movements d \<and>
     retailer_inventory d' = retailer_inventory d \<and>
     consumer_purchases d' = consumer_purchases d \<and>
     manufacturers d' = manufacturers d \<and> retailers d' = retailers d \<and>
     products d' = products d"
  unfolding insert_purchase_items_def Let_def
  by (auto split: if_splits)


subsection \<open>What a handler has done when it answers\<close>

lemma create_batch_effect:
  assumes "create_batch now fresh_uuid d u productId body = (res, d')"
  shows "(product_batches d' = product_batches d \<and> product_movements d' = product_movements d \<and>
          (\<exists>c msg. res = ErrorStatus c msg)) \<or>
     (\<exists>b m mid.
       res = BatchCreated (pb_id b) (pb_uuid b) \<and>
       product_batches d' = product_batches d @ [b] \<and>
       pb_id b \<notin> pb_id ` set (product_batches d) \<and>
       pb_product_id b = productId \<and>
       pb_quantity_produced b = quantity_produced body \<and>
       pb_quantity_available b = quantity_produced body \<and>
       pb_manufacture_date b = manufacture_date body \<and> pb_expiry_date b = expiry_date body \<and>
       pb_check b \<and>
       product_movements d' = product_movements d @ [m] \<and>
       pm_movement_type m = Manufacture \<and> pm_batch_id m = pb_id b \<and>
       pm_product_id m = productId \<and>
       pm_from_entity_type m = Manufacturer \<and> pm_from_entity_id m = mid \<and>
       pm_to_entity_type m = Manufacturer \<and> pm_to_entity_id m = mid \<and>
       pm_quantity m = quantity_produced body \<and>
       (\<exists>p\<in>set (products d). \<exists>mf\<in>set (manufacturers d).
          p_id p = productId \<and> p_manufacturer_id p = mid \<and> m_id mf = mid \<and>
          m_wp_user_id mf = user_id u))"
proof (cases "select_owned_product productId (user_id u) d")
  case Nil
  with assms show ?thesis by (auto simp: create_batch_def)
next
  case (Cons p ps)
  from select_owned_product_hd[OF Cons] obtain mf where
    own: "p \<in> set (products d)" "p_id p = productId" "mf \<in> set (manufacturers d)"
      "m_id mf = p_manufacturer_id p" "m_wp_user_id mf = user_id u" by blast
  show ?thesis
  proof (cases "create_batch_tx now fresh_uuid productId (p_manufacturer_id p) body d")
    case (Thrown e dt)
    with assms Cons show ?thesis by (auto simp: create_batch_def)
  next
    case (Done r dd)
    with assms Cons have res: "res = BatchCreated (fst r) (snd r)" and dd: "dd = d'"
      by (auto simp: create_batch_def)
    from Done obtain r1 d1 where
      ins: "insert_product_batches fresh_uuid productId (batch_number body)
              (manufacture_date body) (expiry_date body) (quantity_produced body)
              (quantity_produced body) (lab_test_results body) now d = Done r1 d1"
      and rest: "await (insert_product_movements Manufacture productId (fst r1) Manufacturer
              (p_manufacturer_id p) Manufacturer (p_manufacturer_id p)
              (quantity_produced body) None now) (\<lambda>_. Done r1) d1 = Done r dd"
      unfolding create_batch_tx_def by (auto elim: awaitE)
    from rest obtain x where
      mov: "insert_product_movements Manufacture productId (fst r1) Manufacturer
              (p_manufacturer_id p) Manufacturer (p_manufacturer_id p)
              (quantity_produced body) None now d1 = Done x dd" and r: "r1 = r"
      by (auto elim: awaitE)
    from insert_product_batches_Done[OF ins] obtain b where
      b: "product_batches d1 = product_batches d @ [b]" "r1 = (pb_id b, fresh_uuid)"
         "pb_uuid b = fresh_uuid" "pb_product_id b = productId"
         "pb_quantity_produced b = quantity_produced body"
         "pb_quantity_available b = quantity_produced body" "pb_check b"
         "pb_manufacture_date b = manufacture_date body"
         "pb_expiry_date b = expiry_date body"
         "pb_id b \<notin> pb_id ` set (product_batches d)"
         "product_movements d1 = product_movements d" by blast
    from insert_product_movements_Done[OF mov] obtain m where
      m: "product_movements dd = product_movements d1 @ [m]"
         "pm_movement_type m = Manufacture"
         "pm_product_id m = productId" "pm_batch_id m = fst r1"
         "pm_from_entity_type m = Manufacturer" "pm_from_entity_id m = p_manufacturer_id p"
         "pm_to_entity_type m = Manufacturer" "pm_to_entity_id m = p_manufacturer_id p"
         "pm_quantity m = quantity_produced body" "product_batches dd = product_batches d1"
      by blast
    have "\<exists>b m mid.
       res = BatchCreated (pb_id b) (pb_uuid b) \<and>
       product_batches d' = product_batches d @ [b] \<and>
       pb_id b \<notin> pb_id ` set (product_batches d) \<and>
       pb_product_id b = productId \<and>
       pb_quantity_produced b = quantity_produced body \<and>
       pb_quantity_available b = quantity_produced body \<and>
       pb_manufacture_date b = manufacture_date body \<and> pb_expiry_date b = expiry_date body \<and>
       pb_check b \<and>
       product_movements d' = product_movements d @ [m] \<and>
       pm_movement_type m = Manufacture \<and> pm_batch_id m = pb_id b \<and>
       pm_product_id m = productId \<and>
       pm_from_entity_type m = Manufacturer \<and> pm_from_entity_id m = mid \<and>
       pm_to_entity_type m = Manufacturer \<and> pm_to_entity_id m = mid \<and>
       pm_quantity m = quantity_produced body \<and>
       (\<exists>p\<in>set (products d). \<exists>mf\<in>set (manufacturers d).
          p_id p = productId \<and> p_manufacturer_id p = mid \<and> m_id mf = mid \<and>
          m_wp_user_id mf = user_id u)"
      using own b m r res dd
      by (intro exI[of _ b] exI[of _ m] exI[of _ "p_manufacturer_id p"]) auto
    then show ?thesis by (rule disjI2)
  qed
qed

lemma await_select [simp]: "await (select q) cont = (\<lambda>d. cont (q d) d)"
  by (rule ext) (simp add: await_def select_def)

lemma await_Done_iff:
  "await stmt cont d = Done y d' \<longleftrightarrow> (\<exists>x d1. stmt d = Done x d1 \<and> cont x d1 = Done y d')"
  by (cases "stmt d") (auto simp: await_def)

lemma inventory_add_tx_Done:
  assumes "inventory_add_tx now u body d = Done x d'"
  shows "\<exists>rid mid d1 d2.
      upsert_retailer_inventory rid (product_id body) (batch_id body) (quantity body)
             (price body) now d = Done () d1 \<and>
      update_product_batches (quantity body) (batch_id body) d1 = Done () d2 \<and>
      insert_product_movements Ship_to_retailer (product_id body) (batch_id body)
             Manufacturer mid Retailer rid (quantity body) (price body) now d2 = Done x d'"
proof (cases "select_retailer (user_id u) d")
  case Nil
  with assms show ?thesis by (simp add: inventory_add_tx_def)
next
  case rr: (Cons rid rest)
  show ?thesis
  proof (cases "select_quantity_available (batch_id body) (product_id body) d")
    case Nil
    with assms rr show ?thesis by (simp add: inventory_add_tx_def)
  next
    case qq: (Cons qa qs)
    show ?thesis
    proof (cases "qa < quantity body")
      case True
      with assms rr qq show ?thesis by (simp add: inventory_add_tx_def)
    next
      case False
      with assms rr qq have
        "await (upsert_retailer_inventory rid (product_id body) (batch_id body)
              (quantity body) (price body) now)
          (\<lambda>_. await (update_product_batches (quantity body) (batch_id body))
          (\<lambda>_ d. (case select_manufacturer_id (product_id body) d of
                [] \<Rightarrow> Thrown TypeError
              | manufacturer_id # _ \<Rightarrow>
                  insert_product_movements Ship_to_retailer (product_id body) (batch_id body)
                    Manufacturer manufacturer_id Retailer rid (quantity body) (price body)
                    now) d)) d = Done x d'"
        by (simp add: inventory_add_tx_def)
      then obtain d1 d2 where
        up: "upsert_retailer_inventory rid (product_id body) (batch_id body) (quantity body)
             (price body) now d = Done () d1"
        and ub: "update_product_batches (quantity body) (batch_id body) d1 = Done () d2"
        and last: "(case select_manufacturer_id (product_id body) d2 of
                [] \<Rightarrow> Thrown TypeError
              | manufacturer_id # _ \<Rightarrow>
                  insert_product_movements Ship_to_retailer (product_id body) (batch_id body)
                    Manufacturer manufacturer_id Retailer rid (quantity body) (price body)
                    now) d2 = Done x d'"
        unfolding await_Done_iff by auto
      from last obtain mid where
        "insert_product_movements Ship_to_retailer (product_id body) (batch_id body)
             Manufacturer mid Retailer rid (quantity body) (price body) now d2 = Done x d'"
        by (cases "select_manufacturer_id (product_id body) d2") auto
      with up ub show ?thesis by blast
    qed
  qed
qed

lemma map_pb_id_update:
  "map pb_id (map (\<lambda>b. if c b then b\<lparr>pb_quantity_available := g b\<rparr> else b) bs) = map pb_id bs"
  by (induction bs) auto

lemma inventory_add_effect:
  assumes "inventory_add now d u body = (res, d')"
  shows "(product_batches d' = product_batches d \<and> product_movements d' = product_movements d \<and>
          (\<exists>c msg. res = ErrorStatus c msg)) \<or>
     (\<exists>m. res = InventoryAdded \<and>
       product_batches d' =
         map (\<lambda>b. if pb_id b = batch_id body
                   then b\<lparr>pb_quantity_available := pb_quantity_available b - quantity body\<rparr>
                   else b) (product_batches d) \<and>
       batch_id body \<in> pb_id ` set (product_batches d) \<and>
       product_movements d' = product_movements d @ [m] \<and>
       pm_movement_type m = Ship_to_retailer \<and> pm_batch_id m = batch_id body \<and>
       pm_quantity m = quantity body)"
proof (cases "user_type u = ''retailer''")
  case False
  with assms have "res = ErrorStatus 403 ''Only retailers can manage inventory''" "d' = d"
    by (simp_all add: inventory_add_def)
  then show ?thesis by simp
next
  case True
  show ?thesis
  proof (cases "inventory_add_tx now u body d")
    case (Thrown e dt)
    with assms True have "res = ErrorStatus 500 (message e)" "d' = ROLLBACK d dt"
      by (simp_all add: inventory_add_def)
    then show ?thesis by simp
  next
    case (Done x dd)
    with assms True have res: "res = InventoryAdded" and dd: "dd = d'"
      by (simp_all add: inventory_add_def)
    from inventory_add_tx_Done[OF Done] obtain rid mid d1 d2 where
      up: "upsert_retailer_inventory rid (product_id body) (batch_id body) (quantity body)
             (price body) now d = Done () d1"
      and ub: "update_product_batches (quantity body) (batch_id body) d1 = Done () d2"
      and mv: "insert_product_movements Ship_to_retailer (product_id body) (batch_id body)
             Manufacturer mid Retailer rid (quantity body) (price body) now d2 = Done x dd"
      by blast
    from upsert_retailer_inventory_Done[OF up] have
      u1: "product_batches d1 = product_batches d" "product_movements d1 = product_movements d"
      by simp_all
    from update_product_batches_Done[OF ub] have
      u2: "product_batches d2 =
       map (\<lambda>b. if pb_id b = batch_id body
                 then b\<lparr>pb_quantity_available := pb_quantity_available b - quantity body\<rparr> else b)
           (product_batches d1)" "product_movements d2 = product_movements d1"
      by simp_all
    from insert_product_movements_Done[OF mv] obtain m where
      m: "product_movements dd = product_movements d2 @ [m]"
         "pm_movement_type m = Ship_to_retailer" "pm_batch_id m = batch_id body"
         "pm_quantity m = quantity body" "batch_id body \<in> pb_id ` set (product_batches d2)"
         "product_batches dd = product_batches d2" by blast
    have "map pb_id (product_batches d2) = map pb_id (product_batches d)"
      unfolding u2(1) u1(1) by (rule map_pb_id_update)
    then have "pb_id ` set (product_batches d2) = pb_id ` set (product_batches d)"
      by (metis set_map)
    with m(5) have inb: "batch_id body \<in> pb_id ` set (product_batches d)" by simp
    have "\<exists>m. res = InventoryAdded \<and>
       product_batches d' =
         map (\<lambda>b. if pb_id b = batch_id body
                   then b\<lparr>pb_quantity_available := pb_quantity_available b - quantity body\<rparr>
                   else b) (product_batches d) \<and>
       batch_id body \<in> pb_id ` set (product_batches d) \<and>
       product_movements d' = product_movements d @ [m] \<and>
       pm_movement_type m = Ship_to_retailer \<and> pm_batch_id m = batch_id body \<and>
       pm_quantity m = quantity body"
      using res dd u1 u2 m inb by (intro exI[of _ m]) simp
    then show ?thesis by (rule disjI2)
  qed
qed

lemma process_items_Done:
  "process_items now body purchaseId its d = Done x d' \<Longrightarrow>
     product_batches d' = product_batches d \<and>
     (\<exists>ms. product_movements d' = product_movements d @ ms \<and>
        (\<forall>m\<in>set ms. pm_movement_type m = Sale_to_consumer \<and>
                     pm_batch_id m \<in> pb_id ` set (product_batches d)))"
proof (induction its arbitrary: d)
  case Nil
  then show ?case by simp
next
  case (Cons item rest)
  from Cons.prems obtain d1 d2 d3 where
    s1: "insert_purchase_items purchaseId (item_product_id item) (item_batch_id item)
           (item_quantity item) (item_unit_price item)
           (of_int (item_quantity item) * item_unit_price item) d = Done () d1"
    and s2: "update_retailer_inventory (item_quantity item) (retailer_id body)
           (item_product_id item) (item_batch_id item) now d1 = Done () d2"
    and s3: "insert_product_movements Sale_to_consumer (item_product_id item)
           (item_batch_id item) Retailer (retailer_id body) Consumer
           (case wp_user_id body of None \<Rightarrow> 0 | Some w \<Rightarrow> w)
           (item_quantity item) (Some (item_unit_price item)) now d2 = Done () d3"
    and s4: "process_items now body purchaseId rest d3 = Done x d'"
    unfolding process_items.simps await_Done_iff by auto
  from insert_purchase_items_Done[OF s1] have
    e1: "product_batches d1 = product_batches d" "product_movements d1 = product_movements d"
    by simp_all
  from update_retailer_inventory_Done[OF s2] have
    e2: "product_batches d2 = product_batches d1" "product_movements d2 = product_movements d1"
    by simp_all
  from insert_product_movements_Done[OF s3] obtain m where
    m: "product_movements d3 = product_movements d2 @ [m]"
       "pm_movement_type m = Sale_to_consumer" "pm_batch_id m = item_batch_id item"
       "item_batch_id item \<in> pb_id ` set (product_batches d2)"
       "product_batches d3 = product_batches d2" by blast
  from Cons.IH[OF s4] obtain ms where
    ih: "product_batches d' = product_batches d3"
        "product_movements d' = product_movements d3 @ ms"
        "\<forall>m\<in>set ms. pm_movement_type m = Sale_to_consumer \<and>
                     pm_batch_id m \<in> pb_id ` set (product_batches d3)" by blast
  have "product_movements d' = product_movements d @ (m # ms)"
    using ih(2) m(1) e1(2) e2(2) by simp
  moreover have "\<forall>m'\<in>set (m # ms). pm_movement_type m' = Sale_to_consumer \<and>
                     pm_batch_id m' \<in> pb_id ` set (product_batches d)"
    using ih(3) m(2,3,4,5) e1(1) e2(1) by simp
  moreover have "product_batches d' = product_batches d"
    using ih(1) m(5) e1(1) e2(1) by simp
  ultimately show ?case by blast
qed

lemma purchase_effect:
  assumes "purchase now d body = (res, d')"
  shows "product_batches d' = product_batches d \<and>
     (\<exists>ms. product_movements d' = product_movements d @ ms \<and>
        (\<forall>m\<in>set ms. pm_movement_type m = Sale_to_consumer \<and>
                     pm_batch_id m \<in> pb_id ` set (product_batches d)))"
proof (cases "purchase_tx now body d")
  case (Thrown e dt)
  with assms have "d' = ROLLBACK d dt" by (simp add: purchase_def)
  then have "product_batches d' = product_batches d"
    "product_movements d' = product_movements d @ []" by simp_all
  then show ?thesis by (metis empty_iff list.set(1))
next
  case (Done x dd)
  with assms have dd: "dd = d'" by (simp add: purchase_def)
  from Done obtain purchaseId d1 y where
    s1: "insert_consumer_purchases (wp_user_id body) (retailer_id body)
              (total_amount (items body)) (payment_method body) (pos_transaction_id body) now d
           = Done purchaseId d1"
    and s2: "process_items now body purchaseId (items body) d1 = Done y dd"
    unfolding purchase_tx_def await_Done_iff by auto
  from insert_consumer_purchases_Done[OF s1] have
    e1: "product_batches d1 = product_batches d" "product_movements d1 = product_movements d"
    by simp_all
  from process_items_Done[OF s2] show ?thesis unfolding e1 dd .
qed

text \<open>Each of the three writing handlers either succeeds or leaves the tables as they were.\<close>

lemma tables_ROLLBACK: "tables (ROLLBACK d c) = tables d"
  by (simp add: tables_def)


lemma purchase_all_or_nothing:
  "(\<exists>purchaseId. fst (purchase now d body) = PurchaseCompleted purchaseId) \<or>
   tables (snd (purchase now d body)) = tables d"
  by (cases "purchase_tx now body d") (simp_all add: purchase_def tables_ROLLBACK)

lemma create_batch_all_or_nothing:
  "(\<exists>bid buuid. fst (create_batch now fresh_uuid d u productId body) = BatchCreated bid buuid) \<or>
   tables (snd (create_batch now fresh_uuid d u productId body)) = tables d"
proof (cases "select_owned_product productId (user_id u) d")
  case Nil
  then show ?thesis by (simp add: create_batch_def)
next
  case (Cons p ps)
  then show ?thesis
    by (cases "create_batch_tx now fresh_uuid productId (p_manufacturer_id p) body d")
      (simp_all add: create_batch_def tables_ROLLBACK)
qed

subsection \<open>A shipment larger than the batch\<close>




subsection \<open>Recording a manufacture\<close>

text \<open>
  Claim C4.  When \<open>POST /api/products/:productId/batches\<close> succeeds, exactly one batch has
  been appended, with \<open>quantity_available\<close> equal to the \<open>quantity_produced\<close> of the request,
  and exactly one movement record has been appended: its kind is \<open>manufacture\<close>, its source
  and its destination are the manufacturer that owns the product (the manufacturer of the
  calling user), and its quantity is \<open>quantity_produced\<close>.  A call that succeeds had a
  positive quantity and an expiry date after the manufacture date.
\<close>

theorem record_manufacture_creates_batch_and_movement:
  assumes "create_batch now fresh_uuid d u productId body = (BatchCreated bid buuid, d')"
  shows "\<exists>b m mid.
     product_batches d' = product_batches d @ [b] \<and>
     pb_id b = bid \<and> pb_uuid b = buuid \<and> pb_product_id b = productId \<and>
     pb_quantity_produced b = quantity_produced body \<and>
     pb_quantity_available b = quantity_produced body \<and>
     product_movements d' = product_movements d @ [m] \<and>
     pm_movement_type m = Manufacture \<and> pm_batch_id m = bid \<and> pm_product_id m = productId \<and>
     pm_from_entity_type m = Manufacturer \<and> pm_from_entity_id m = mid \<and>
     pm_to_entity_type m = Manufacturer \<and> pm_to_entity_id m = mid \<and>
     pm_quantity m = quantity_produced body \<and>
     (\<exists>p\<in>set (products d). \<exists>mf\<in>set (manufacturers d).
        p_id p = productId \<and> p_manufacturer_id p = mid \<and> m_id mf = mid \<and>
        m_wp_user_id mf = user_id u) \<and>
     0 < quantity_produced body \<and> manufacture_date body < expiry_date body"
proof -
  from create_batch_effect[OF assms] obtain b m mid where
    eff: "BatchCreated bid buuid = BatchCreated (pb_id b) (pb_uuid b)"
      "product_batches d' = product_batches d @ [b]"
      "pb_product_id b = productId"
      "pb_quantity_produced b = quantity_produced body"
      "pb_quantity_available b = quantity_produced body"
      "pb_manufacture_date b = manufacture_date body" "pb_expiry_date b = expiry_date body"
      "pb_check b"
      "product_movements d' = product_movements d @ [m]"
      "pm_movement_type m = Manufacture" "pm_batch_id m = pb_id b"
      "pm_product_id m = productId"
      "pm_from_entity_type m = Manufacturer" "pm_from_entity_id m = mid"
      "pm_to_entity_type m = Manufacturer" "pm_to_entity_id m = mid"
      "pm_quantity m = quantity_produced body"
    and own: "\<exists>p\<in>set (products d). \<exists>mf\<in>set (manufacturers d).
        p_id p = productId \<and> p_manufacturer_id p = mid \<and> m_id mf = mid \<and>
        m_wp_user_id mf = user_id u"
    by blast
  from eff(8) eff(4) eff(6) eff(7)
  have "0 < quantity_produced body" "manufacture_date body < expiry_date body"
    by (simp_all add: pb_check_def)
  with eff own show ?thesis
    by (intro exI[of _ b] exI[of _ m] exI[of _ mid]) simp
qed

text \<open>Scenario 1: a batch of 1000 with one \<open>manufacture\<close> record from manufacturer 1 to itself.\<close>

theorem record_manufacture_witness:
  "fst (create_batch 1704153600000000 ''b1'' scenario_db maker 1 lot) = BatchCreated 1 ''b1'' \<and>
   map pb_quantity_available
     (product_batches (snd (create_batch 1704153600000000 ''b1'' scenario_db maker 1 lot))) =
     [1000] \<and>
   map (\<lambda>m. (pm_movement_type m, pm_from_entity_type m, pm_from_entity_id m,
             pm_to_entity_type m, pm_to_entity_id m, pm_quantity m))
     (product_movements (snd (create_batch 1704153600000000 ''b1'' scenario_db maker 1 lot))) =
     [(Manufacture, Manufacturer, 1, Manufacturer, 1, 1000)]"
proof -
  let ?r = "create_batch 1704153600000000 ''b1'' scenario_db maker 1 lot"
  have res: "fst ?r = BatchCreated 1 ''b1''"
    by (simp add: engine_defs scenario_defs)
  then have ok: "?r = (BatchCreated 1 ''b1'', snd ?r)"
    by (simp add: prod_eq_iff)
  have empty: "product_batches scenario_db = []" "product_movements scenario_db = []"
    "manufacturers scenario_db =
       [\<lparr>m_id = 1, m_wp_user_id = 1001, m_company_name = ''Test Vape Co''\<rparr>]"
    "quantity_produced lot = 1000"
    by (simp_all add: scenario_defs)
  from record_manufacture_creates_batch_and_movement[OF ok] obtain b m mid where
    b: "product_batches (snd ?r) = product_batches scenario_db @ [b]"
       "pb_quantity_available b = quantity_produced lot"
    and m: "product_movements (snd ?r) = product_movements scenario_db @ [m]"
       "pm_movement_type m = Manufacture"
       "pm_from_entity_type m = Manufacturer" "pm_from_entity_id m = mid"
       "pm_to_entity_type m = Manufacturer" "pm_to_entity_id m = mid"
       "pm_quantity m = quantity_produced lot"
    and mid: "\<exists>mf\<in>set (manufacturers scenario_db). m_id mf = mid"
    by blast
  from mid have "mid = 1" by (simp add: empty)
  with b m res show ?thesis by (simp add: empty)
qed

subsection \<open>Reconciliation of the movement log\<close>

lemma replay_append: "replay k (xs @ ys) = replay k xs + replay k ys"
  by (simp add: replay_def)

lemma replay_single: "replay k [m] = (if pm_batch_id m = k then signed_quantity m else 0)"
  by (simp add: replay_def)

lemma replay_sales:
  "\<forall>m\<in>set ms. pm_movement_type m = Sale_to_consumer \<Longrightarrow> replay k ms = 0"
  by (induction ms) (auto simp: replay_def signed_quantity_def)

lemma replay_unreferenced:
  "k \<notin> pm_batch_id ` set ms \<Longrightarrow> replay k ms = 0"
  by (induction ms) (auto simp: replay_def)

lemma ledger_ok_create_batch:
  assumes "ledger_ok d"
  shows "ledger_ok (snd (create_batch now fresh_uuid d u productId body))"
proof -
  obtain res d' where r: "create_batch now fresh_uuid d u productId body = (res, d')"
    by (cases "create_batch now fresh_uuid d u productId body")
  from create_batch_effect[OF r] show ?thesis
  proof
    assume "product_batches d' = product_batches d \<and> product_movements d' = product_movements d \<and>
          (\<exists>c msg. res = ErrorStatus c msg)"
    with assms r show ?thesis by (simp add: ledger_ok_def)
  next
    assume "\<exists>b m mid.
       res = BatchCreated (pb_id b) (pb_uuid b) \<and>
       product_batches d' = product_batches d @ [b] \<and>
       pb_id b \<notin> pb_id ` set (product_batches d) \<and>
       pb_product_id b = productId \<and>
       pb_quantity_produced b = quantity_produced body \<and>
       pb_quantity_available b = quantity_produced body \<and>
       pb_manufacture_date b = manufacture_date body \<and> pb_expiry_date b = expiry_date body \<and>
       pb_check b \<and>
       product_movements d' = product_movements d @ [m] \<and>
       pm_movement_type m = Manufacture \<and> pm_batch_id m = pb_id b \<and>
       pm_product_id m = productId \<and>
       pm_from_entity_type m = Manufacturer \<and> pm_from_entity_id m = mid \<and>
       pm_to_entity_type m = Manufacturer \<and> pm_to_entity_id m = mid \<and>
       pm_quantity m = quantity_produced body \<and>
       (\<exists>p\<in>set (products d). \<exists>mf\<in>set (manufacturers d).
          p_id p = productId \<and> p_manufacturer_id p = mid \<and> m_id mf = mid \<and>
          m_wp_user_id mf = user_id u)"
    then obtain b m where
      b: "product_batches d' = product_batches d @ [b]"
         "pb_id b \<notin> pb_id ` set (product_batches d)"
         "pb_quantity_available b = quantity_produced body"
      and m: "product_movements d' = product_movements d @ [m]"
         "pm_movement_type m = Manufacture" "pm_batch_id m = pb_id b"
         "pm_quantity m = quantity_produced body"
      by blast
    from assms have
      dist: "distinct (map pb_id (product_batches d))"
      and refs: "pm_batch_id ` set (product_movements d) \<subseteq> pb_id ` set (product_batches d)"
      and rec: "\<And>c. c \<in> set (product_batches d) \<Longrightarrow>
                  pb_quantity_available c = replay (pb_id c) (product_movements d)"
      by (simp_all add: ledger_ok_def)
    have 1: "distinct (map pb_id (product_batches d'))"
      using dist b by simp
    have 2: "pm_batch_id ` set (product_movements d') \<subseteq> pb_id ` set (product_batches d')"
      using refs b m by auto
    have new: "replay (pb_id b) (product_movements d) = 0"
      using refs b(2) by (intro replay_unreferenced) auto
    have 3: "pb_quantity_available c = replay (pb_id c) (product_movements d')"
      if c: "c \<in> set (product_batches d')" for c
    proof (cases "c = b")
      case True
      with b m new show ?thesis
        by (simp add: replay_append replay_single signed_quantity_def)
    next
      case False
      with c b have old: "c \<in> set (product_batches d)" by simp
      with b(2) have "pb_id c \<noteq> pb_id b" by (metis image_eqI)
      with rec[OF old] m show ?thesis
        by (simp add: replay_append replay_single)
    qed
    from 1 2 3 r show ?thesis by (simp add: ledger_ok_def)
  qed
qed

lemma ledger_ok_inventory_add:
  assumes "ledger_ok d"
  shows "ledger_ok (snd (inventory_add now d u body))"
proof -
  obtain res d' where r: "inventory_add now d u body = (res, d')"
    by (cases "inventory_add now d u body")
  from inventory_add_effect[OF r] show ?thesis
  proof
    assume "product_batches d' = product_batches d \<and> product_movements d' = product_movements d \<and>
          (\<exists>c msg. res = ErrorStatus c msg)"
    with assms r show ?thesis by (simp add: ledger_ok_def)
  next
    let ?upd = "\<lambda>b. if pb_id b = batch_id body
                   then b\<lparr>pb_quantity_available := pb_quantity_available b - quantity body\<rparr>
                   else b"
    assume "\<exists>m. res = InventoryAdded \<and>
       product_batches d' = map ?upd (product_batches d) \<and>
       batch_id body \<in> pb_id ` set (product_batches d) \<and>
       product_movements d' = product_movements d @ [m] \<and>
       pm_movement_type m = Ship_to_retailer \<and> pm_batch_id m = batch_id body \<and>
       pm_quantity m = quantity body"
    then obtain m where
      b: "product_batches d' = map ?upd (product_batches d)"
         "batch_id body \<in> pb_id ` set (product_batches d)"
      and m: "product_movements d' = product_movements d @ [m]"
         "pm_movement_type m = Ship_to_retailer" "pm_batch_id m = batch_id body"
         "pm_quantity m = quantity body"
      by blast
    from assms have
      dist: "distinct (map pb_id (product_batches d))"
      and refs: "pm_batch_id ` set (product_movements d) \<subseteq> pb_id ` set (product_batches d)"
      and rec: "\<And>c. c \<in> set (product_batches d) \<Longrightarrow>
                  pb_quantity_available c = replay (pb_id c) (product_movements d)"
      by (simp_all add: ledger_ok_def)
    have ids: "map pb_id (product_batches d') = map pb_id (product_batches d)"
      unfolding b(1) by (rule map_pb_id_update)
    then have idset: "pb_id ` set (product_batches d') = pb_id ` set (product_batches d)"
      by (metis set_map)
    have 1: "distinct (map pb_id (product_batches d'))"
      using dist ids by simp
    have 2: "pm_batch_id ` set (product_movements d') \<subseteq> pb_id ` set (product_batches d')"
      using refs b(2) m(1,3) idset by auto
    have 3: "pb_quantity_available c = replay (pb_id c) (product_movements d')"
      if c: "c \<in> set (product_batches d')" for c
    proof -
      from c b(1) obtain c0 where c0: "c0 \<in> set (product_batches d)" "c = ?upd c0" by auto
      show ?thesis
      proof (cases "pb_id c0 = batch_id body")
        case True
        with c0 rec[OF c0(1)] m show ?thesis
          by (simp add: replay_append replay_single signed_quantity_def)
      next
        case False
        with c0 rec[OF c0(1)] m show ?thesis
          by (simp add: replay_append replay_single)
      qed
    qed
    from 1 2 3 r show ?thesis by (simp add: ledger_ok_def)
  qed
qed

lemma ledger_ok_purchase:
  assumes "ledger_ok d"
  shows "ledger_ok (snd (purchase now d body))"
proof -
  obtain res d' where r: "purchase now d body = (res, d')"
    by (cases "purchase now d body")
  from purchase_effect[OF r] obtain ms where
    b: "product_batches d' = product_batches d"
    and m: "product_movements d' = product_movements d @ ms"
    and s: "\<forall>m\<in>set ms. pm_movement_type m = Sale_to_consumer \<and>
                     pm_batch_id m \<in> pb_id ` set (product_batches d)"
    by blast
  from s have zero: "replay k ms = 0" for k by (intro replay_sales) simp
  from assms s have "pm_batch_id ` set (product_movements d') \<subseteq> pb_id ` set (product_batches d')"
    unfolding b m ledger_ok_def by auto
  with assms r show ?thesis
    unfolding ledger_ok_def by (simp add: b m replay_append zero)
qed

lemma ledger_ok_execute: "ledger_ok d \<Longrightarrow> ledger_ok (execute d op)"
  by (cases op) (simp_all add: ledger_ok_create_batch ledger_ok_inventory_add ledger_ok_purchase)

lemma ledger_ok_run: "ledger_ok d \<Longrightarrow> ledger_ok (run d ops)"
  unfolding run_def by (induction ops arbitrary: d) (simp_all add: ledger_ok_execute)

text \<open>
  Claim C5.  Start from a ledger with no batch and no movement record and run any sequence
  of \<open>record_manufacture\<close>, \<open>ship_to_retailer\<close> and \<open>sell_to_consumer\<close> calls, each with any
  arguments, failing or not.  For every batch of the state reached, adding up the signed
  quantities of its movement records in the order of the log gives its
  \<open>quantity_available\<close>.
\<close>

theorem replay_reproduces_quantity_available:
  assumes "product_batches d0 = []" and "product_movements d0 = []"
    and "b \<in> set (product_batches (run d0 ops))"
  shows "pb_quantity_available b = replay (pb_id b) (product_movements (run d0 ops))"
proof -
  from assms(1,2) have "ledger_ok d0" by (simp add: ledger_ok_def)
  then have "ledger_ok (run d0 ops)" by (rule ledger_ok_run)
  with assms(3) show ?thesis by (simp add: ledger_ok_def)
qed

text \<open>Scenarios 1 to 3: 1000 made, 200 shipped, 50 sold; 800 are available.\<close>

theorem replay_reproduces_witness:
  "map pb_quantity_available (product_batches (run scenario_db [made, shipped, sold])) = [800] \<and>
   map (\<lambda>m. (pm_movement_type m, pm_batch_id m, pm_quantity m))
     (product_movements (run scenario_db [made, shipped, sold])) =
     [(Manufacture, 1, 1000), (Ship_to_retailer, 1, 200), (Sale_to_consumer, 1, 50)] \<and>
   replay 1 (product_movements (run scenario_db [made, shipped, sold])) = 800"
proof -
  let ?d = "run scenario_db [made, shipped, sold]"
  let ?b = "\<lparr>pb_id = 1, pb_uuid = ''b1'', pb_product_id = 1,
             pb_batch_number = ''BATCH-TEST-001'', pb_manufacture_date = 19723,
             pb_expiry_date = 20089, pb_quantity_produced = 1000,
             pb_quantity_available = 800, pb_lab_test_results = ''{}'',
             pb_created_at = 1704153600000000\<rparr>"
  have bs: "product_batches ?d = [?b]"
    by (simp add: engine_defs scenario_defs)
  have ms: "map (\<lambda>m. (pm_movement_type m, pm_batch_id m, pm_quantity m)) (product_movements ?d) =
     [(Manufacture, 1, 1000), (Ship_to_retailer, 1, 200), (Sale_to_consumer, 1, 50)]"
    by (simp add: engine_defs scenario_defs)
  have e: "product_batches scenario_db = []" "product_movements scenario_db = []"
    by (simp_all add: scenario_db_def)
  have "?b \<in> set (product_batches ?d)" unfolding bs by simp
  from replay_reproduces_quantity_available[OF e this]
  have "replay 1 (product_movements ?d) = 800" by simp
  with bs ms show ?thesis by simp
qed

subsection \<open>Fields of a batch that are written once\<close>

lemma frozen_fields_update:
  "map frozen_fields (map (\<lambda>b. if c b then b\<lparr>pb_quantity_available := g b\<rparr> else b) bs) =
     map frozen_fields bs"
  by (induction bs) (auto simp: frozen_fields_def)

lemma frozen_inventory_add:
  "map frozen_fields (product_batches (snd (inventory_add now d u body))) =
     map frozen_fields (product_batches d)"
proof -
  obtain res d' where r: "inventory_add now d u body = (res, d')"
    by (cases "inventory_add now d u body")
  from inventory_add_effect[OF r] have
    "product_batches d' = product_batches d \<or>
     product_batches d' =
         map (\<lambda>b. if pb_id b = batch_id body
                   then b\<lparr>pb_quantity_available := pb_quantity_available b - quantity body\<rparr>
                   else b) (product_batches d)"
    by blast
  then show ?thesis
  proof
    assume "product_batches d' = product_batches d"
    then show ?thesis unfolding r by simp
  next
    assume upd: "product_batches d' =
         map (\<lambda>b. if pb_id b = batch_id body
                   then b\<lparr>pb_quantity_available := pb_quantity_available b - quantity body\<rparr>
                   else b) (product_batches d)"
    show ?thesis unfolding r snd_conv upd by (rule frozen_fields_update)
  qed
qed

lemma batches_purchase:
  "product_batches (snd (purchase now d body)) = product_batches d"
proof -
  obtain res d' where r: "purchase now d body = (res, d')"
    by (cases "purchase now d body")
  from purchase_effect[OF r] show ?thesis unfolding r by simp
qed

lemma batches_create_batch:
  "\<exists>new. product_batches (snd (create_batch now fresh_uuid d u productId body)) =
     product_batches d @ new"
proof -
  obtain res d' where r: "create_batch now fresh_uuid d u productId body = (res, d')"
    by (cases "create_batch now fresh_uuid d u productId body")
  from create_batch_effect[OF r] have
    "product_batches d' = product_batches d @ [] \<or>
     (\<exists>b. product_batches d' = product_batches d @ [b])"
    by auto
  then show ?thesis unfolding r by auto
qed

lemma frozen_execute:
  "\<exists>new. map frozen_fields (product_batches (execute d op)) =
     map frozen_fields (product_batches d) @ new"
proof (cases op)
  case (Op_record_manufacture now fresh_uuid u productId body)
  from batches_create_batch[of now fresh_uuid d u productId body] obtain new where
    "product_batches (snd (create_batch now fresh_uuid d u productId body)) =
       product_batches d @ new" by blast
  with Op_record_manufacture show ?thesis by simp
next
  case (Op_ship_to_retailer now u body)
  then show ?thesis by (simp add: frozen_inventory_add)
next
  case (Op_sell_to_consumer now body)
  then show ?thesis by (simp add: batches_purchase)
qed

lemma frozen_run:
  "\<exists>new. map frozen_fields (product_batches (run d ops)) =
     map frozen_fields (product_batches d) @ new"
  unfolding run_def
proof (induction ops arbitrary: d)
  case Nil
  then show ?case by simp
next
  case (Cons op ops)
  from frozen_execute[of d op] obtain n1 where
    1: "map frozen_fields (product_batches (execute d op)) =
          map frozen_fields (product_batches d) @ n1" by blast
  from Cons.IH[of "execute d op"] obtain n2 where
    2: "map frozen_fields (product_batches (foldl execute (execute d op) ops)) =
          map frozen_fields (product_batches (execute d op)) @ n2" by blast
  from 1 2 show ?case by simp
qed

text \<open>
  Claim C9.  \<open>POST /api/inventory/add\<close> leaves every field of every batch row as it was,
  \<open>quantity_available\<close> apart; \<open>POST /api/purchase\<close> leaves the batch table as it was;
  and after any sequence of operations the rows that were in the table are still its first
  rows, with every field but \<open>quantity_available\<close> as it was: \<open>quantity_produced\<close> is
  written by the \<open>INSERT\<close> of \<open>record_manufacture\<close> and by nothing else.  The trace query
  has no next state at all.
\<close>

theorem batch_fields_other_than_available_never_change:
  "map frozen_fields (product_batches (snd (inventory_add now d u body))) =
     map frozen_fields (product_batches d) \<and>
   product_batches (snd (purchase now' d body')) = product_batches d \<and>
   map frozen_fields (take (length (product_batches d)) (product_batches (run d ops))) =
     map frozen_fields (product_batches d)"
proof -
  from frozen_run[of d ops] obtain new where
    "map frozen_fields (product_batches (run d ops)) =
       map frozen_fields (product_batches d) @ new" by blast
  then have "take (length (product_batches d))
       (map frozen_fields (product_batches (run d ops))) = map frozen_fields (product_batches d)"
    by simp
  then have "map frozen_fields (take (length (product_batches d)) (product_batches (run d ops))) =
     map frozen_fields (product_batches d)"
    by (simp add: take_map)
  then show ?thesis by (simp add: frozen_inventory_add batches_purchase)
qed

subsection \<open>The stored price plays no part in a purchase\<close>

lemma on_state_simps [simp]:
  "on_state f (Done x d) = Done x (f d)"
  "on_state f (Thrown e d) = Thrown e (f d)"
  by (simp_all add: on_state_def)

lemma erase_price_fields [simp]:
  "manufacturers (erase_price d) = manufacturers d"
  "retailers (erase_price d) = retailers d"
  "products (erase_price d) = products d"
  "product_batches (erase_price d) = product_batches d"
  "product_movements (erase_price d) = product_movements d"
  "consumer_purchases (erase_price d) = consumer_purchases d"
  "purchase_items (erase_price d) = purchase_items d"
  "product_batches_id_seq (erase_price d) = product_batches_id_seq d"
  "retailer_inventory_id_seq (erase_price d) = retailer_inventory_id_seq d"
  "product_movements_id_seq (erase_price d) = product_movements_id_seq d"
  "consumer_purchases_id_seq (erase_price d) = consumer_purchases_id_seq d"
  "purchase_items_id_seq (erase_price d) = purchase_items_id_seq d"
  "retailer_inventory (erase_price d) = map (\<lambda>r. r\<lparr>ri_price := 1\<rparr>) (retailer_inventory d)"
  by (simp_all add: erase_price_def)


























subsection \<open>What a purchase checks, and what it does not\<close>

text \<open>
  A purchase that completes had, for every line item, a positive quantity and at most the
  stock of every inventory position stored for the key of the item: the two \<open>CHECK\<close>s of the
  schema see to that, and a violation rolls the whole purchase back.
\<close>

lemma insert_purchase_items_positive:
  "insert_purchase_items cid pid bid q up tp d = Done x d' \<Longrightarrow> 0 < q"
  unfolding insert_purchase_items_def Let_def
  by (auto simp: pi_check_def split: if_splits)

lemma update_retailer_inventory_stock:
  assumes "update_retailer_inventory q rid pid bid now d = Done x d'"
  shows "retailer_inventory d' =
      map (\<lambda>r. if ri_key r = (rid, pid, bid)
            then r\<lparr>ri_quantity_in_stock := ri_quantity_in_stock r - q,
                   ri_last_sold := Some now, ri_updated_at := now\<rparr> else r)
        (retailer_inventory d)"
    and "\<forall>r\<in>set (retailer_inventory d). ri_key r = (rid, pid, bid) \<longrightarrow> q \<le> ri_quantity_in_stock r"
proof -
  from assms have ok: "list_all ri_check
      (map (\<lambda>r. r\<lparr>ri_quantity_in_stock := ri_quantity_in_stock r - q,
                   ri_last_sold := Some now, ri_updated_at := now\<rparr>)
         (filter (\<lambda>r. ri_key r = (rid, pid, bid)) (retailer_inventory d)))"
    and d': "d' = d\<lparr>retailer_inventory :=
                map (\<lambda>r. if ri_key r = (rid, pid, bid)
                     then r\<lparr>ri_quantity_in_stock := ri_quantity_in_stock r - q,
                            ri_last_sold := Some now, ri_updated_at := now\<rparr> else r)
                 (retailer_inventory d)\<rparr>"
    unfolding update_retailer_inventory_def Let_def by (simp_all split: if_splits)
  from d' show "retailer_inventory d' =
      map (\<lambda>r. if ri_key r = (rid, pid, bid)
            then r\<lparr>ri_quantity_in_stock := ri_quantity_in_stock r - q,
                   ri_last_sold := Some now, ri_updated_at := now\<rparr> else r)
        (retailer_inventory d)" by simp
  from ok show "\<forall>r\<in>set (retailer_inventory d).
      ri_key r = (rid, pid, bid) \<longrightarrow> q \<le> ri_quantity_in_stock r"
    by (simp add: list_all_iff ri_check_def)
qed

lemma process_items_enforced:
  "process_items now body purchaseId its d = Done x d' \<Longrightarrow>
     \<forall>item\<in>set its. 0 < item_quantity item \<and>
       (\<forall>r\<in>set (retailer_inventory d).
          ri_key r = (retailer_id body, item_product_id item, item_batch_id item) \<longrightarrow>
          item_quantity item \<le> ri_quantity_in_stock r)"
proof (induction its arbitrary: d)
  case Nil
  then show ?case by simp
next
  case (Cons it rest)
  let ?k = "(retailer_id body, item_product_id it, item_batch_id it)"
  let ?upd = "\<lambda>r. if ri_key r = ?k
            then r\<lparr>ri_quantity_in_stock := ri_quantity_in_stock r - item_quantity it,
                   ri_last_sold := Some now, ri_updated_at := now\<rparr> else r"
  from Cons.prems obtain d1 d2 d3 where
    s1: "insert_purchase_items purchaseId (item_product_id it) (item_batch_id it)
           (item_quantity it) (item_unit_price it)
           (of_int (item_quantity it) * item_unit_price it) d = Done () d1"
    and s2: "update_retailer_inventory (item_quantity it) (retailer_id body)
           (item_product_id it) (item_batch_id it) now d1 = Done () d2"
    and s3: "insert_product_movements Sale_to_consumer (item_product_id it)
           (item_batch_id it) Retailer (retailer_id body) Consumer
           (case wp_user_id body of None \<Rightarrow> 0 | Some w \<Rightarrow> w)
           (item_quantity it) (Some (item_unit_price it)) now d2 = Done () d3"
    and s4: "process_items now body purchaseId rest d3 = Done x d'"
    unfolding process_items.simps await_Done_iff by auto
  from insert_purchase_items_positive[OF s1] have pos: "0 < item_quantity it" .
  from insert_purchase_items_Done[OF s1] have i1: "retailer_inventory d1 = retailer_inventory d"
    by simp
  note u = update_retailer_inventory_stock[OF s2]
  from insert_product_movements_Done[OF s3] have i3: "retailer_inventory d3 = retailer_inventory d2"
    by blast
  have inv3: "retailer_inventory d3 = map ?upd (retailer_inventory d)"
    using i3 u(1) i1 by simp
  have head: "\<forall>r\<in>set (retailer_inventory d). ri_key r = ?k \<longrightarrow> item_quantity it \<le> ri_quantity_in_stock r"
    using u(2) i1 by simp
  have tail: "0 < item_quantity item \<and>
       (\<forall>r\<in>set (retailer_inventory d).
          ri_key r = (retailer_id body, item_product_id item, item_batch_id item) \<longrightarrow>
          item_quantity item \<le> ri_quantity_in_stock r)"
    if item: "item \<in> set rest" for item
  proof -
    from Cons.IH[OF s4] item have q: "0 < item_quantity item"
      and st: "\<forall>r\<in>set (retailer_inventory d3).
          ri_key r = (retailer_id body, item_product_id item, item_batch_id item) \<longrightarrow>
          item_quantity item \<le> ri_quantity_in_stock r" by blast+
    have "item_quantity item \<le> ri_quantity_in_stock r"
      if r: "r \<in> set (retailer_inventory d)"
        and k: "ri_key r = (retailer_id body, item_product_id item, item_batch_id item)" for r
    proof -
      define r' where "r' = ?upd r"
      from r have in3: "r' \<in> set (retailer_inventory d3)" unfolding inv3 r'_def by simp
      have key: "ri_key r' = ri_key r" by (simp add: ri_key_def r'_def)
      have le: "ri_quantity_in_stock r' \<le> ri_quantity_in_stock r"
        using pos by (simp add: r'_def)
      from st in3 have "ri_key r' =
          (retailer_id body, item_product_id item, item_batch_id item) \<longrightarrow>
          item_quantity item \<le> ri_quantity_in_stock r'" by (rule bspec)
      with key k have "item_quantity item \<le> ri_quantity_in_stock r'" by simp
      with le show ?thesis by linarith
    qed
    with q show ?thesis by blast
  qed
  from pos head tail show ?case by simp
qed

lemma purchase_completed_enforced:
  assumes "fst (purchase now d body) = PurchaseCompleted purchaseId"
  shows "\<forall>item\<in>set (items body). 0 < item_quantity item \<and>
       (\<forall>r\<in>set (retailer_inventory d).
          ri_key r = (retailer_id body, item_product_id item, item_batch_id item) \<longrightarrow>
          item_quantity item \<le> ri_quantity_in_stock r)"
proof (cases "purchase_tx now body d")
  case (Thrown e dt)
  with assms show ?thesis by (simp add: purchase_def)
next
  case (Done x dd)
  then obtain pid d1 y where
    s1: "insert_consumer_purchases (wp_user_id body) (retailer_id body)
              (total_amount (items body)) (payment_method body) (pos_transaction_id body) now d
           = Done pid d1"
    and s2: "process_items now body pid (items body) d1 = Done y dd"
    unfolding purchase_tx_def await_Done_iff by auto
  from insert_consumer_purchases_Done[OF s1] have "retailer_inventory d1 = retailer_inventory d"
    by simp
  with process_items_enforced[OF s2] show ?thesis by simp
qed

text \<open>
  Claim C3.  The purchase must fail when no inventory position exists for the key of a line
  item.  It does not: in the state with the batch made and nothing shipped, retailer 1 has
  no position at all, and the sale of 50 units of batch 1 completes, with a purchase-item
  row and a \<open>sale_to_consumer\<close> record and no position decremented.  The \<open>UPDATE\<close> of the
  position matches no row, and the handler does not look at how many rows it changed.
\<close>

theorem sell_without_position_commits:
  "retailer_inventory (run scenario_db [made]) = [] \<and>
   fst (purchase 1709251200000000 (run scenario_db [made]) sale) = PurchaseCompleted 1 \<and>
   retailer_inventory (snd (purchase 1709251200000000 (run scenario_db [made]) sale)) = [] \<and>
   map (\<lambda>i. (pi_product_id i, pi_batch_id i, pi_quantity i)) (purchase_items
     (snd (purchase 1709251200000000 (run scenario_db [made]) sale))) = [(1, 1, 50)] \<and>
   map (\<lambda>pm. (pm_movement_type pm, pm_batch_id pm, pm_quantity pm)) (product_movements
     (snd (purchase 1709251200000000 (run scenario_db [made]) sale))) =
     [(Manufacture, 1, 1000), (Sale_to_consumer, 1, 50)]"
  by (simp add: engine_defs scenario_defs)

text \<open>
  Claim C2.  A purchase with a line item that fails its precondition must persist nothing.
  Here the first item is in stock (200 units of batch 1) and the second names batch 2, of
  which retailer 1 holds no position.  The purchase completes and persists everything:
  the purchase row with the total of both items, both purchase-item rows, the decrement of
  the position of batch 1 and both movement records.
\<close>

theorem sell_with_one_missing_position_commits:
  "filter (\<lambda>r. ri_key r = (1, 1, 2))
     (retailer_inventory (run scenario_db [made, made_second, shipped])) = [] \<and>
   fst (purchase 1709251200000000 (run scenario_db [made, made_second, shipped]) mixed_sale) =
     PurchaseCompleted 1 \<and>
   map cp_total_amount (consumer_purchases
     (snd (purchase 1709251200000000 (run scenario_db [made, made_second, shipped])
        mixed_sale))) = [420] \<and>
   map (\<lambda>i. (pi_batch_id i, pi_quantity i)) (purchase_items
     (snd (purchase 1709251200000000 (run scenario_db [made, made_second, shipped])
        mixed_sale))) = [(1, 50), (2, 10)] \<and>
   map (\<lambda>r. (ri_batch_id r, ri_quantity_in_stock r)) (retailer_inventory
     (snd (purchase 1709251200000000 (run scenario_db [made, made_second, shipped])
        mixed_sale))) = [(1, 150)] \<and>
   map (\<lambda>pm. (pm_movement_type pm, pm_batch_id pm, pm_quantity pm)) (product_movements
     (snd (purchase 1709251200000000 (run scenario_db [made, made_second, shipped])
        mixed_sale))) =
     [(Manufacture, 1, 1000), (Manufacture, 2, 500), (Ship_to_retailer, 1, 200),
      (Sale_to_consumer, 1, 50), (Sale_to_consumer, 2, 10)]"
  by (simp add: more_scenario_defs engine_defs scenario_defs)

subsection \<open>Shipping from an expired batch\<close>

text \<open>
  Claim C6.  A shipment from an expired batch must fail.  The batch expires on 1 January
  2025 (day 20089); on 1 January 2026 (day 20454) the listing of available products no
  longer counts it, and the shipment of 200 units still succeeds: the handler never reads
  \<open>expiry_date\<close>.
\<close>

theorem ship_from_expired_batch_succeeds:
  "map pb_expiry_date (product_batches (run scenario_db [made])) = [20089] \<and>
   CURRENT_DATE 1767225600000000 = 20454 \<and>
   map (counted_as_available 1767225600000000) (product_batches (run scenario_db [made])) =
     [False] \<and>
   fst (inventory_add 1767225600000000 (run scenario_db [made]) shop
          \<lparr>product_id = 1, batch_id = 1, quantity = 200, price = Some 5\<rparr>) = InventoryAdded \<and>
   map pb_quantity_available (product_batches
     (snd (inventory_add 1767225600000000 (run scenario_db [made]) shop
          \<lparr>product_id = 1, batch_id = 1, quantity = 200, price = Some 5\<rparr>))) = [800] \<and>
   map (\<lambda>r. (ri_batch_id r, ri_quantity_in_stock r)) (retailer_inventory
     (snd (inventory_add 1767225600000000 (run scenario_db [made]) shop
          \<lparr>product_id = 1, batch_id = 1, quantity = 200, price = Some 5\<rparr>))) = [(1, 200)]"
  by (simp add: CURRENT_DATE_def counted_as_available_def engine_defs scenario_defs)

subsection \<open>The trace of a batch\<close>

text \<open>
  The two \<open>CASE\<close> columns are \<open>text\<close> where the function declares \<open>VARCHAR\<close>, so
  \<open>get_batch_history\<close> raises on every call, and the handler answers \<open>404\<close> when no batch
  has the number and \<open>500\<close> when one has.
\<close>

lemma select_list_mismatch: "select_list \<noteq> returns_table"
  by (simp add: select_list_def returns_table_def case_type_def concat_type_def)

lemma get_batch_history_raises: "get_batch_history batch_uuid d outcome \<longleftrightarrow> outcome = None"
  by (simp add: get_batch_history_def select_list_mismatch)

lemma trace_batch_iff:
  "trace_batch d n res \<longleftrightarrow>
     res = (if select_batch_by_number n d = [] then ErrorStatus 404 ''Batch not found''
            else ErrorStatus 500 ''Failed to trace batch'')"
proof (cases "select_batch_by_number n d")
  case Nil
  then show ?thesis by (simp add: trace_batch_def)
next
  case (Cons b bs)
  then show ?thesis
    by (cases res) (auto simp add: trace_batch_def get_batch_history_raises list_ex_iff)
qed

text \<open>
  Claim C7.  For a batch that exists the trace must return its movement records in order.
  After scenarios 1 to 3 the batch \<open>BATCH-TEST-001\<close> exists and the query inside
  \<open>get_batch_history\<close> selects its three records, yet the only answer of the handler is
  \<open>500 Failed to trace batch\<close>: the history is never returned.
\<close>

theorem trace_of_recorded_batch_fails:
  "select_batch_by_number ''BATCH-TEST-001'' (run scenario_db [made, shipped, sold]) =
     [the_batch] \<and>
   get_batch_history_rows ''b1'' (run scenario_db [made, shipped, sold]) =
     [h_made, h_shipped, h_sold 50] \<and>
   select_list = [Timestamptz, Varchar, Text, Text, Integer, Text] \<and>
   returns_table = [Timestamptz, Varchar, Varchar, Varchar, Integer, Text] \<and>
   (\<forall>res. trace_batch (run scenario_db [made, shipped, sold]) ''BATCH-TEST-001'' res \<longleftrightarrow>
      res = ErrorStatus 500 ''Failed to trace batch'') \<and>
   \<not> trace_batch (run scenario_db [made, shipped, sold]) ''BATCH-TEST-001''
       (Traced the_batch [h_made, h_shipped, h_sold 50])"
proof -
  let ?d = "run scenario_db [made, shipped, sold]"
  have b: "select_batch_by_number ''BATCH-TEST-001'' ?d = [the_batch]"
    by (simp add: trace_defs engine_defs scenario_defs)
  have h: "get_batch_history_rows ''b1'' ?d = [h_made, h_shipped, h_sold 50]"
    by (simp add: trace_defs engine_defs scenario_defs)
  have t: "select_list = [Timestamptz, Varchar, Text, Text, Integer, Text]"
    "returns_table = [Timestamptz, Varchar, Varchar, Varchar, Integer, Text]"
    by (simp_all add: select_list_def returns_table_def case_type_def concat_type_def)
  have a: "trace_batch ?d ''BATCH-TEST-001'' res \<longleftrightarrow>
      res = ErrorStatus 500 ''Failed to trace batch''" for res
    unfolding trace_batch_iff b by simp
  from a have "\<not> trace_batch ?d ''BATCH-TEST-001'' (Traced the_batch [h_made, h_shipped, h_sold 50])"
    by simp
  with b h t a show ?thesis by blast
qed

text \<open>
  Claim C8.  A trace over records that name a deleted party must still succeed and label
  the party.  With retailer 1 deleted, the \<open>ship_to_retailer\<close> record still names retailer
  1 as its destination and the batch still exists, and the only answer of the handler is
  \<open>500 Failed to trace batch\<close>.  The query inside \<open>get_batch_history\<close> does keep the
  record, but the row it selects for it has a null \<open>to_entity\<close>: the only generic label of
  the \<open>CASE\<close> is \<open>Consumer #id\<close>, for a party of type consumer.
\<close>

theorem trace_after_party_deleted_fails:
  "retailers retailer_deleted = [] \<and>
   map (\<lambda>pm. (pm_movement_type pm, pm_to_entity_type pm, pm_to_entity_id pm))
     (product_movements retailer_deleted) =
     [(Manufacture, Manufacturer, 1), (Ship_to_retailer, Retailer, 1)] \<and>
   select_batch_by_number ''BATCH-TEST-001'' retailer_deleted = [the_batch] \<and>
   (\<forall>res. trace_batch retailer_deleted ''BATCH-TEST-001'' res \<longleftrightarrow>
      res = ErrorStatus 500 ''Failed to trace batch'') \<and>
   get_batch_history_rows ''b1'' retailer_deleted = [h_made, h_shipped_to_nobody] \<and>
   h_to_entity h_shipped_to_nobody = None"
proof -
  let ?d = "retailer_deleted"
  have r: "retailers ?d = []"
    by (simp add: more_scenario_defs)
  have m: "map (\<lambda>pm. (pm_movement_type pm, pm_to_entity_type pm, pm_to_entity_id pm))
     (product_movements ?d) = [(Manufacture, Manufacturer, 1), (Ship_to_retailer, Retailer, 1)]"
    by (simp add: more_scenario_defs engine_defs scenario_defs)
  have b: "select_batch_by_number ''BATCH-TEST-001'' ?d = [the_batch]"
    by (simp add: trace_defs more_scenario_defs engine_defs scenario_defs)
  have h: "get_batch_history_rows ''b1'' ?d = [h_made, h_shipped_to_nobody]"
    by (simp add: trace_defs more_scenario_defs engine_defs scenario_defs)
  have n: "h_to_entity h_shipped_to_nobody = None"
    by (simp add: h_shipped_to_nobody_def)
  have a: "trace_batch ?d ''BATCH-TEST-001'' res \<longleftrightarrow>
      res = ErrorStatus 500 ''Failed to trace batch''" for res
    unfolding trace_batch_iff b by simp
  from r m b h n a show ?thesis by blast
qed

end
